theory Spec2Isabelle
  imports Complex_Main
begin

section \<open>Data model of the store context\<close>

text \<open>
  The development embeds \<^verbatim>\<open>src/context/StoreContext.tsx\<close>: the functions of the
  \<^verbatim>\<open>StoreProvider\<close> that book and release rentals, read the availability, apply payments,
  move the stock and compute the statistics, with the loaders they call, over the tables
  they reach through the store client and over the lists the provider keeps in React
  state. The SQL function \<^verbatim>\<open>create_customer_if_not_exists\<close> is the one of the migration.
  The management of the catalogue, \<^verbatim>\<open>addPayment\<close> and \<^verbatim>\<open>getCustomerHistory\<close> are not
  embedded.

  \<^item> An id (a uuid chosen by the database) is a natural number; the database hands out
    \<open>db_next_id\<close> and increments it.
  \<^item> A JavaScript \<^verbatim>\<open>Date\<close> is its time value, the milliseconds since the epoch, as an
    \<open>int\<close>. Invalid dates are outside the model.
  \<^item> A SQL \<^verbatim>\<open>date\<close> column, and the string \<^verbatim>\<open>toISOString().split('T')[0]\<close> written to it
    or compared with it, is the number of the UTC day, the days since the epoch.
  \<^item> A JavaScript number holding an amount of money is a rational; a number holding a
    quantity or a stock is an integer. \<^verbatim>\<open>NaN\<close> and the infinities are outside the model.
  \<^item> An optional field of a TypeScript object is an \<open>option\<close>.

  Columns that no function below reads, compares or computes with (names of products,
  sizes, prices, discounts, agents, notes) are copied by the source from its argument to
  the row and back; they are left out of the records.
\<close>

type_synonym ident = nat
type_synonym date = int
type_synonym day = int
type_synonym money = rat

text \<open>
  Modelled from the spec: the module \<^verbatim>\<open>../types\<close> that declares \<^verbatim>\<open>Rental\<close>, \<^verbatim>\<open>Transaction\<close>
  and the other object types is not among the sources. The values of the status of a rental
  are the four of the spec's data model (active, returned, cancelled, overdue); the
  sources compare a status with the first three literals and \<^verbatim>\<open>CustomerManagement\<close> has a
  fourth badge for what is left. The other three enumerations are the literals the
  sources write: the payment status (also the \<^verbatim>\<open>CHECK\<close> constraint of the migration), the
  status of a calendar row and the type of a transaction. The fields of the records below
  are the ones the sources read and write.
\<close>

datatype payment_status = Pending | Partial | Completed
datatype rental_status = Active | Returned | Cancelled | Overdue
datatype calendar_status = Reserved | Available
datatype transaction_type = Sale | RentalTx

text \<open>What a function throws: the \<^verbatim>\<open>Error\<close> that \<^verbatim>\<open>addRental\<close> builds when the product is
  not available, or the error object of a store call, thrown again.\<close>

datatype error = Conflict | StoreError

subsection \<open>Rows of the database\<close>

record product_row =
  p_id :: ident
  p_name :: string
  p_stock :: int

record transaction_row =
  t_id :: ident
  t_type :: transaction_type
  t_product_id :: ident
  t_quantity :: int
  t_total_amount :: money
  t_amount_paid :: money
  t_remaining_amount :: money
  t_payment_status :: payment_status
  t_customer_name :: string
  t_customer_phone :: string
  t_customer_email :: "string option"
  t_created_at :: date

record rental_row =
  r_id :: ident
  r_product_id :: ident
  r_rental_start_date :: day
  r_rental_end_date :: day
  r_total_amount :: money
  r_amount_paid :: money
  r_remaining_amount :: money
  r_payment_status :: payment_status
  r_status :: rental_status
  r_returned_at :: "date option"
  r_created_at :: date

record calendar_row =
  c_product_id :: ident
  c_rental_id :: ident
  c_reserved_date :: day
  c_status :: calendar_status

record customer_row =
  k_id :: ident
  k_name :: string
  k_phone :: string
  k_email :: "string option"

subsection \<open>Objects of the application\<close>

record Product =
  prodId :: ident
  prodName :: string
  prodStock :: int

text \<open>\<^verbatim>\<open>Omit<Transaction, 'id' | 'createdAt'>\<close> is \<open>TransactionData\<close>; \<^verbatim>\<open>Transaction\<close> extends
  it with the two fields.\<close>

record TransactionData =
  txType :: transaction_type
  txProductId :: ident
  txQuantity :: int
  txTotalAmount :: money
  txAmountPaid :: "money option"
  txRemainingAmount :: "money option"
  txPaymentStatus :: "payment_status option"
  txCustomerName :: string
  txCustomerPhone :: string
  txCustomerEmail :: "string option"

record Transaction = TransactionData +
  txId :: ident
  txCreatedAt :: date

record RentalData =
  productId :: ident
  rentalStartDate :: date
  rentalEndDate :: date
  totalAmount :: money
  amountPaid :: "money option"
  remainingAmount :: "money option"
  paymentStatus :: "payment_status option"
  status :: rental_status
  returnedAt :: "date option"

record Rental = RentalData +
  rentalId :: ident
  createdAt :: date

record Customer =
  customerId :: ident
  customerName :: string
  customerPhone :: string
  customerEmail :: "string option"

record ProductAvailability =
  paProductId :: ident
  availableDates :: "date list"
  reservedDates :: "date list"
  isAvailable :: bool


subsection \<open>The state: the tables, and the lists held by the provider\<close>

record world =
  db_products :: "product_row list"
  db_transactions :: "transaction_row list"
  db_rentals :: "rental_row list"
  db_rental_calendar :: "calendar_row list"
  db_customers :: "customer_row list"
  db_next_id :: ident
  products :: "Product list"
  transactions :: "Transaction list"
  rentals :: "Rental list"
  customers :: "Customer list"

text \<open>
  What a call of a function meets outside the state: the clock (\<open>now\<close>, read by
  \<^verbatim>\<open>new Date()\<close> and by the \<^verbatim>\<open>now()\<close> default of \<^verbatim>\<open>created_at\<close>), the time zone of the
  browser, and for every store call whether it comes back with an error.

  The time zone is what ECMAScript calls \<^verbatim>\<open>LocalTZA\<close>: the offset of local time from UTC
  in milliseconds, at a time value (\<open>tza_utc\<close>) and at a local time (\<open>tza_local\<close>). In a zone
  with daylight saving the two change twice a year.
\<close>

record env =
  now :: date
  tza_utc :: "date \<Rightarrow> int"
  tza_local :: "int \<Rightarrow> int"
  err_select_products :: bool
  err_select_transactions :: bool
  err_select_rentals :: bool
  err_select_customers :: bool
  err_select_calendar :: bool
  err_insert_transaction :: bool
  err_insert_rental :: bool
  err_insert_calendar :: bool
  err_update_product :: bool
  err_update_transaction :: bool
  err_update_rental :: bool
  err_update_calendar :: bool
  err_rpc_customer :: bool

definition calm :: "date \<Rightarrow> env" where
  "calm t = \<lparr>now = t, tza_utc = (\<lambda>t. 0), tza_local = (\<lambda>l. 0),
     err_select_products = False, err_select_transactions = False,
     err_select_rentals = False, err_select_customers = False,
     err_select_calendar = False, err_insert_transaction = False,
     err_insert_rental = False, err_insert_calendar = False,
     err_update_product = False, err_update_transaction = False,
     err_update_rental = False, err_update_calendar = False,
     err_rpc_customer = False\<rparr>"

section \<open>JavaScript and SQL primitives\<close>

definition ms_per_day :: int where
  "ms_per_day = 86400000"

definition ms_per_hour :: int where
  "ms_per_hour = 3600000"

text \<open>\<^verbatim>\<open>d.toISOString().split('T')[0]\<close>: the UTC day of a time value.\<close>

definition iso_day :: "date \<Rightarrow> day" where
  "iso_day d = d div ms_per_day"

text \<open>\<^verbatim>\<open>new Date('YYYY-MM-DD')\<close>: midnight UTC of that day.\<close>

definition date_of_day :: "day \<Rightarrow> date" where
  "date_of_day d = d * ms_per_day"

text \<open>The conversions \<^verbatim>\<open>LocalTime\<close> and \<^verbatim>\<open>UTC\<close> of ECMAScript between a time value and
  the local time of the zone.\<close>

definition LocalTime :: "env \<Rightarrow> date \<Rightarrow> int" where
  "LocalTime e t = t + tza_utc e t"

definition UTC :: "env \<Rightarrow> int \<Rightarrow> date" where
  "UTC e l = l - tza_local e l"

text \<open>\<^verbatim>\<open>d.toDateString()\<close> names the local day of a time value.\<close>

definition local_day :: "env \<Rightarrow> date \<Rightarrow> day" where
  "local_day e d = LocalTime e d div ms_per_day"

text \<open>\<^verbatim>\<open>d.setDate(d.getDate() + 1)\<close>: the same local time of day on the next local day. The
  step is 24 hours where the offset of the zone does not change, and 23 or 25 hours over a
  change of one hour.\<close>

definition next_local_day :: "env \<Rightarrow> date \<Rightarrow> date" where
  "next_local_day e t = UTC e (LocalTime e t + ms_per_day)"

text \<open>An amount that JavaScript numbers hold, add and subtract without rounding: a whole
  number of at most 51 bits. Sums and differences of two such amounts are exact in a
  double; amounts with cents are not (\<^verbatim>\<open>0.7 + 0.1\<close> is not \<^verbatim>\<open>0.8\<close>).\<close>

definition whole_amount :: "money \<Rightarrow> bool" where
  "whole_amount x \<longleftrightarrow> of_int \<lfloor>x\<rfloor> = x \<and> \<bar>x\<bar> \<le> 2 ^ 51"

text \<open>\<^verbatim>\<open>a || b\<close> on an optional number: \<^verbatim>\<open>undefined\<close> and \<^verbatim>\<open>0\<close> are falsy.\<close>

definition num_or :: "money option \<Rightarrow> money \<Rightarrow> money" where
  "num_or a b = (case a of None \<Rightarrow> b | Some x \<Rightarrow> if x = 0 then b else x)"

definition status_or :: "payment_status option \<Rightarrow> payment_status \<Rightarrow> payment_status" where
  "status_or a b = (case a of None \<Rightarrow> b | Some s \<Rightarrow> s)"

text \<open>\<^verbatim>\<open>.update(f).eq(...)\<close>: every row that satisfies the filter is rewritten.\<close>

definition update_where :: "('r \<Rightarrow> bool) \<Rightarrow> ('r \<Rightarrow> 'r) \<Rightarrow> 'r list \<Rightarrow> 'r list" where
  "update_where p f rows = map (\<lambda>r. if p r then f r else r) rows"

section \<open>Loading the lists\<close>

text \<open>
  Each loader selects a whole table, newest row first (rows are appended to a table, so
  that is the reverse of the table), and on an error logs it and leaves the list as it was.
\<close>

definition format_product :: "product_row \<Rightarrow> Product" where
  "format_product item =
     \<lparr>prodId = p_id item, prodName = p_name item, prodStock = p_stock item\<rparr>"

definition loadProducts :: "env \<Rightarrow> world \<Rightarrow> world" where
  "loadProducts e w =
     (if err_select_products e then w
      else w\<lparr>products := map format_product (rev (db_products w))\<rparr>)"

definition format_transaction :: "transaction_row \<Rightarrow> Transaction" where
  "format_transaction item =
     \<lparr>txType = t_type item,
      txProductId = t_product_id item,
      txQuantity = t_quantity item,
      txTotalAmount = t_total_amount item,
      txAmountPaid = Some (num_or (Some (t_amount_paid item)) (t_total_amount item)),
      txRemainingAmount = Some (num_or (Some (t_remaining_amount item)) 0),
      txPaymentStatus = Some (t_payment_status item),
      txCustomerName = t_customer_name item,
      txCustomerPhone = t_customer_phone item,
      txCustomerEmail = t_customer_email item,
      txId = t_id item,
      txCreatedAt = t_created_at item\<rparr>"

definition loadTransactions :: "env \<Rightarrow> world \<Rightarrow> world" where
  "loadTransactions e w =
     (if err_select_transactions e then w
      else w\<lparr>transactions := map format_transaction (rev (db_transactions w))\<rparr>)"

definition format_rental :: "rental_row \<Rightarrow> Rental" where
  "format_rental item =
     \<lparr>productId = r_product_id item,
      rentalStartDate = date_of_day (r_rental_start_date item),
      rentalEndDate = date_of_day (r_rental_end_date item),
      totalAmount = r_total_amount item,
      amountPaid = Some (num_or (Some (r_amount_paid item)) (r_total_amount item)),
      remainingAmount = Some (num_or (Some (r_remaining_amount item)) 0),
      paymentStatus = Some (r_payment_status item),
      status = r_status item,
      returnedAt = r_returned_at item,
      rentalId = r_id item,
      createdAt = r_created_at item\<rparr>"

text \<open>The select of \<^verbatim>\<open>loadRentals\<close> joins \<^verbatim>\<open>products!inner(name)\<close>: a rental whose product
  row is gone is not returned.\<close>

definition loadRentals :: "env \<Rightarrow> world \<Rightarrow> world" where
  "loadRentals e w =
     (if err_select_rentals e then w
      else w\<lparr>rentals := map format_rental
             (filter (\<lambda>item. r_product_id item \<in> p_id ` set (db_products w))
                (rev (db_rentals w)))\<rparr>)"

definition format_customer :: "customer_row \<Rightarrow> Customer" where
  "format_customer item =
     \<lparr>customerId = k_id item, customerName = k_name item,
      customerPhone = k_phone item, customerEmail = k_email item\<rparr>"

definition loadCustomers :: "env \<Rightarrow> world \<Rightarrow> world" where
  "loadCustomers e w =
     (if err_select_customers e then w
      else w\<lparr>customers := map format_customer (rev (db_customers w))\<rparr>)"

section \<open>Payment ledger\<close>

definition payment_status_of :: "money \<Rightarrow> money \<Rightarrow> payment_status" where
  "payment_status_of remaining totalPaid =
     (if remaining = 0 then Completed else if totalPaid > 0 then Partial else Pending)"

definition updateTransactionPayment ::
  "env \<Rightarrow> ident \<Rightarrow> money \<Rightarrow> world \<Rightarrow> (error + unit) \<times> world" where
  "updateTransactionPayment e transactionId amount w =
     (case find (\<lambda>t. txId t = transactionId) (transactions w) of
        None \<Rightarrow> (Inr (), w)
      | Some transaction \<Rightarrow>
          let totalPaid = num_or (txAmountPaid transaction) 0 + amount;
              remaining = max 0 (txTotalAmount transaction - totalPaid);
              paymentStatus = payment_status_of remaining totalPaid
          in if err_update_transaction e then (Inl StoreError, w)
             else (Inr (),
               loadTransactions e
                 (w\<lparr>db_transactions :=
                      update_where (\<lambda>row. t_id row = transactionId)
                        (\<lambda>row. row\<lparr>t_amount_paid := totalPaid,
                                   t_remaining_amount := remaining,
                                   t_payment_status := paymentStatus\<rparr>)
                        (db_transactions w)\<rparr>)))"

definition updateRentalPayment ::
  "env \<Rightarrow> ident \<Rightarrow> money \<Rightarrow> world \<Rightarrow> (error + unit) \<times> world" where
  "updateRentalPayment e rid amount w =
     (case find (\<lambda>r. rentalId r = rid) (rentals w) of
        None \<Rightarrow> (Inr (), w)
      | Some rental \<Rightarrow>
          let totalPaid = num_or (amountPaid rental) 0 + amount;
              remaining = max 0 (totalAmount rental - totalPaid);
              paymentStatus = payment_status_of remaining totalPaid
          in if err_update_rental e then (Inl StoreError, w)
             else (Inr (),
               loadRentals e
                 (w\<lparr>db_rentals :=
                      update_where (\<lambda>row. r_id row = rid)
                        (\<lambda>row. row\<lparr>r_amount_paid := totalPaid,
                                   r_remaining_amount := remaining,
                                   r_payment_status := paymentStatus\<rparr>)
                        (db_rentals w)\<rparr>)))"

section \<open>Availability\<close>

definition checkProductAvailability :: "env \<Rightarrow> ident \<Rightarrow> date \<Rightarrow> date \<Rightarrow> world \<Rightarrow> bool" where
  "checkProductAvailability e pid startDate endDate w =
     (let data = map c_reserved_date
            (filter (\<lambda>row. c_product_id row = pid \<and> c_status row = Reserved
                        \<and> iso_day startDate \<le> c_reserved_date row
                        \<and> c_reserved_date row \<le> iso_day endDate)
               (db_rental_calendar w))
      in if err_select_calendar e then False else length data = 0)"

subsection \<open>The civil calendar of \<^verbatim>\<open>Date\<close>\<close>

text \<open>
  \<^verbatim>\<open>getFullYear\<close>, \<^verbatim>\<open>getMonth\<close> and \<^verbatim>\<open>new Date(year, monthIndex, day)\<close> work on local
  time in the proleptic Gregorian calendar. \<open>civil_of_day\<close> gives year, month (1 to 12)
  and day of month of a day number, \<open>day_of_civil\<close> is its inverse on valid dates.
\<close>

definition civil_of_day :: "day \<Rightarrow> int \<times> int \<times> int" where
  "civil_of_day z0 =
     (let z = z0 + 719468;
          era = z div 146097;
          doe = z - era * 146097;
          yoe = (doe - doe div 1460 + doe div 36524 - doe div 146096) div 365;
          doy = doe - (365 * yoe + yoe div 4 - yoe div 100);
          mp = (5 * doy + 2) div 153;
          d = doy - (153 * mp + 2) div 5 + 1;
          m = (if mp < 10 then mp + 3 else mp - 9);
          y = yoe + era * 400 + (if m \<le> 2 then 1 else 0)
      in (y, m, d))"

definition day_of_civil :: "int \<Rightarrow> int \<Rightarrow> int \<Rightarrow> day" where
  "day_of_civil y0 m d =
     (let y = (if m \<le> 2 then y0 - 1 else y0);
          era = y div 400;
          yoe = y - era * 400;
          doy = (153 * (if m > 2 then m - 3 else m + 9) + 2) div 5 + d - 1;
          doe = yoe * 365 + yoe div 4 - yoe div 100 + doy
      in era * 146097 + doe - 719468)"

definition getFullYear :: "env \<Rightarrow> date \<Rightarrow> int" where
  "getFullYear e d = fst (civil_of_day (local_day e d))"

text \<open>The month index of JavaScript runs from 0 to 11.\<close>

definition getMonth :: "env \<Rightarrow> date \<Rightarrow> int" where
  "getMonth e d = fst (snd (civil_of_day (local_day e d))) - 1"

text \<open>\<^verbatim>\<open>new Date(year, monthIndex, day)\<close>: local midnight; a month index beyond 11 runs
  into the next year, and day 0 is the last day of the month before.\<close>

definition new_Date :: "env \<Rightarrow> int \<Rightarrow> int \<Rightarrow> int \<Rightarrow> date" where
  "new_Date e year monthIndex dayOfMonth =
     UTC e ((day_of_civil (year + monthIndex div 12) (monthIndex mod 12 + 1) 1
              + (dayOfMonth - 1)) * ms_per_day)"

text \<open>
  The loop of \<^verbatim>\<open>getProductAvailability\<close> over the days of the month, pushing onto
  \<^verbatim>\<open>availableDates\<close>. Whether the loop ends depends on the zone, which is a parameter: where
  it does not end the result is \<open>None\<close>.
\<close>

partial_function (option) month_loop ::
  "env \<Rightarrow> date list \<Rightarrow> date list \<Rightarrow> date \<Rightarrow> date \<Rightarrow> date list option" where
  "month_loop e reserved available currentDate endOfMonth =
     (if currentDate \<le> endOfMonth
      then month_loop e reserved
             (if \<not> list_ex (\<lambda>d. local_day e d = local_day e currentDate) reserved
              then available @ [currentDate] else available)
             (next_local_day e currentDate) endOfMonth
      else Some available)"

declare month_loop.simps [code]

definition getProductAvailability ::
  "env \<Rightarrow> ident \<Rightarrow> date \<Rightarrow> world \<Rightarrow> ProductAvailability option" where
  "getProductAvailability e pid month w =
     (let startOfMonth = new_Date e (getFullYear e month) (getMonth e month) 1;
          endOfMonth = new_Date e (getFullYear e month) (getMonth e month + 1) 0;
          data = filter (\<lambda>row. c_product_id row = pid
                          \<and> iso_day startOfMonth \<le> c_reserved_date row
                          \<and> c_reserved_date row \<le> iso_day endOfMonth)
                   (db_rental_calendar w)
      in if err_select_calendar e
         then Some \<lparr>paProductId = pid, availableDates = [], reservedDates = [],
                    isAvailable = True\<rparr>
         else
           let reserved = map (\<lambda>item. date_of_day (c_reserved_date item))
                            (filter (\<lambda>item. c_status item = Reserved) data)
           in map_option
                (\<lambda>available. \<lparr>paProductId = pid, availableDates = available,
                               reservedDates = reserved, isAvailable = (length available > 0)\<rparr>)
                (month_loop e reserved [] startOfMonth endOfMonth))"

section \<open>Rentals\<close>

text \<open>
  The loop of \<^verbatim>\<open>addRental\<close> that builds the calendar rows, pushing onto \<^verbatim>\<open>dates\<close>: it
  compares the time values \<^verbatim>\<open>currentDate <= rentalData.rentalEndDate\<close>, writes the UTC day
  of \<^verbatim>\<open>currentDate\<close> and moves \<^verbatim>\<open>currentDate\<close> on by one local day. Where the loop does not
  end the result is \<open>None\<close>.
\<close>

partial_function (option) rental_dates ::
  "env \<Rightarrow> ident \<Rightarrow> ident \<Rightarrow> calendar_row list \<Rightarrow> date \<Rightarrow> date \<Rightarrow> calendar_row list option" where
  "rental_dates e pid rid dates currentDate endDate =
     (if currentDate \<le> endDate
      then rental_dates e pid rid
             (dates @ [\<lparr>c_product_id = pid, c_rental_id = rid,
                        c_reserved_date = iso_day currentDate, c_status = Reserved\<rparr>])
             (next_local_day e currentDate) endDate
      else Some dates)"

declare rental_dates.simps [code]

text \<open>
  \<^verbatim>\<open>addRental\<close> reaches the store four times, with an \<^verbatim>\<open>await\<close> at each: the availability
  select, the insert of the rental, the insert of the calendar rows, the reload of the
  rentals. The second and the third are the two functions below; the third comes after
  the loop over the days, and a call whose loop does not end does not return (\<open>None\<close>).
\<close>

definition insert_rental :: "env \<Rightarrow> RentalData \<Rightarrow> world \<Rightarrow> (error + ident) \<times> world" where
  "insert_rental e rentalData w =
     (if err_insert_rental e then (Inl StoreError, w)
      else (Inr (db_next_id w),
        w\<lparr>db_rentals := db_rentals w @
             [\<lparr>r_id = db_next_id w,
               r_product_id = productId rentalData,
               r_rental_start_date = iso_day (rentalStartDate rentalData),
               r_rental_end_date = iso_day (rentalEndDate rentalData),
               r_total_amount = totalAmount rentalData,
               r_amount_paid = num_or (amountPaid rentalData) (totalAmount rentalData),
               r_remaining_amount = num_or (remainingAmount rentalData) 0,
               r_payment_status = status_or (paymentStatus rentalData) Completed,
               r_status = status rentalData,
               r_returned_at = None,
               r_created_at = now e\<rparr>],
           db_next_id := Suc (db_next_id w)\<rparr>))"

definition insert_calendar :: "env \<Rightarrow> RentalData \<Rightarrow> ident \<Rightarrow> world \<Rightarrow> world option" where
  "insert_calendar e rentalData newId w =
     (case rental_dates e (productId rentalData) newId []
             (rentalStartDate rentalData) (rentalEndDate rentalData) of
        None \<Rightarrow> None
      | Some dates \<Rightarrow>
          Some (if length dates > 0
                then (if err_insert_calendar e then w
                      else w\<lparr>db_rental_calendar := db_rental_calendar w @ dates\<rparr>)
                else w))"

definition addRental ::
  "env \<Rightarrow> RentalData \<Rightarrow> world \<Rightarrow> ((error + ident) \<times> world) option" where
  "addRental e rentalData w =
     (let isAvailable = checkProductAvailability e (productId rentalData)
                          (rentalStartDate rentalData) (rentalEndDate rentalData) w
      in if \<not> isAvailable then Some (Inl Conflict, w)
         else case insert_rental e rentalData w of
                (Inl err, w1) \<Rightarrow> Some (Inl err, w1)
              | (Inr newId, w1) \<Rightarrow>
                  (case insert_calendar e rentalData newId w1 of
                     None \<Rightarrow> None
                   | Some w2 \<Rightarrow> Some (Inr newId, loadRentals e w2)))"

definition updateRentalStatus ::
  "env \<Rightarrow> ident \<Rightarrow> rental_status \<Rightarrow> date option \<Rightarrow> world \<Rightarrow> (error + unit) \<times> world" where
  "updateRentalStatus e rid st returned w =
     (if err_update_rental e then (Inl StoreError, w)
      else
        let w1 = w\<lparr>db_rentals :=
                    update_where (\<lambda>row. r_id row = rid)
                      (\<lambda>row. case returned of
                                None \<Rightarrow> row\<lparr>r_status := st\<rparr>
                              | Some t \<Rightarrow> row\<lparr>r_status := st, r_returned_at := Some t\<rparr>)
                      (db_rentals w)\<rparr>;
            w2 = (if st = Returned
                  then (if err_update_calendar e then w1
                        else w1\<lparr>db_rental_calendar :=
                                 update_where (\<lambda>row. c_rental_id row = rid)
                                   (\<lambda>row. row\<lparr>c_status := Available\<rparr>)
                                   (db_rental_calendar w1)\<rparr>)
                  else w1)
        in (Inr (), loadRentals e w2))"

text \<open>
  The store calls of \<^verbatim>\<open>addRental\<close> as a machine, one store call a step: what the function
  still has to do is a \<open>rental_task\<close>, and between two steps of one call the steps of
  another call can run, since every \<^verbatim>\<open>await\<close> gives the event loop back.
\<close>

datatype rental_task =
    AwaitCheck RentalData
  | AwaitInsert RentalData
  | AwaitCalendar RentalData ident
  | AwaitLoad ident
  | Settled "error + ident"

fun rental_step :: "env \<Rightarrow> rental_task \<Rightarrow> world \<Rightarrow> (rental_task \<times> world) option" where
  "rental_step e (AwaitCheck rentalData) w =
     (if \<not> checkProductAvailability e (productId rentalData)
            (rentalStartDate rentalData) (rentalEndDate rentalData) w
      then Some (Settled (Inl Conflict), w)
      else Some (AwaitInsert rentalData, w))"
| "rental_step e (AwaitInsert rentalData) w =
     (case insert_rental e rentalData w of
        (Inl err, w1) \<Rightarrow> Some (Settled (Inl err), w1)
      | (Inr newId, w1) \<Rightarrow> Some (AwaitCalendar rentalData newId, w1))"
| "rental_step e (AwaitCalendar rentalData newId) w =
     (case insert_calendar e rentalData newId w of
        None \<Rightarrow> None
      | Some w1 \<Rightarrow> Some (AwaitLoad newId, w1))"
| "rental_step e (AwaitLoad newId) w = Some (Settled (Inr newId), loadRentals e w)"
| "rental_step e (Settled r) w = Some (Settled r, w)"

text \<open>Two calls in flight; a schedule says which of the two makes the next step
  (\<open>False\<close> the first, \<open>True\<close> the second).\<close>

fun interleave ::
  "env \<Rightarrow> bool list \<Rightarrow> rental_task \<times> rental_task \<times> world
     \<Rightarrow> (rental_task \<times> rental_task \<times> world) option" where
  "interleave e [] s = Some s"
| "interleave e (b # bs) (t1, t2, w) =
     (if b then (case rental_step e t2 w of
                   None \<Rightarrow> None
                 | Some (t2', w') \<Rightarrow> interleave e bs (t1, t2', w'))
      else (case rental_step e t1 w of
              None \<Rightarrow> None
            | Some (t1', w') \<Rightarrow> interleave e bs (t1', t2, w')))"

text \<open>Two calls of \<^verbatim>\<open>addRental\<close> one after the other, the second when the first has
  returned.\<close>

definition two_rentals ::
  "env \<Rightarrow> RentalData \<Rightarrow> RentalData \<Rightarrow> world
     \<Rightarrow> ((error + ident) \<times> (error + ident) \<times> world) option" where
  "two_rentals e first second w =
     (case addRental e first w of
        None \<Rightarrow> None
      | Some (r1, w1) \<Rightarrow>
          (case addRental e second w1 of
             None \<Rightarrow> None
           | Some (r2, w2) \<Rightarrow> Some (r1, r2, w2)))"

section \<open>Stock and sales\<close>

definition updateStock :: "env \<Rightarrow> ident \<Rightarrow> int \<Rightarrow> world \<Rightarrow> (error + unit) \<times> world" where
  "updateStock e pid quantity w =
     (case find (\<lambda>p. prodId p = pid) (products w) of
        None \<Rightarrow> (Inr (), w)
      | Some product \<Rightarrow>
          let newStock = max 0 (prodStock product + quantity)
          in if err_update_product e then (Inl StoreError, w)
             else (Inr (),
               loadProducts e
                 (w\<lparr>db_products :=
                      update_where (\<lambda>row. p_id row = pid)
                        (\<lambda>row. row\<lparr>p_stock := newStock\<rparr>) (db_products w)\<rparr>)))"

text \<open>The SQL function \<^verbatim>\<open>create_customer_if_not_exists\<close>: the customer with that phone
  number is created, or gets the name and, when one is given, the email.\<close>

definition create_customer_if_not_exists ::
  "string \<Rightarrow> string \<Rightarrow> string option \<Rightarrow> world \<Rightarrow> world" where
  "create_customer_if_not_exists customer_name customer_phone customer_email w =
     (case find (\<lambda>row. k_phone row = customer_phone) (db_customers w) of
        None \<Rightarrow>
          w\<lparr>db_customers := db_customers w @
               [\<lparr>k_id = db_next_id w, k_name = customer_name,
                 k_phone = customer_phone, k_email = customer_email\<rparr>],
            db_next_id := Suc (db_next_id w)\<rparr>
      | Some found \<Rightarrow>
          w\<lparr>db_customers :=
               update_where (\<lambda>row. k_id row = k_id found)
                 (\<lambda>row. row\<lparr>k_name := customer_name,
                            k_email := (case customer_email of
                                          None \<Rightarrow> k_email row
                                        | Some m \<Rightarrow> Some m)\<rparr>)
                 (db_customers w)\<rparr>)"

definition addTransaction :: "env \<Rightarrow> TransactionData \<Rightarrow> world \<Rightarrow> (error + ident) \<times> world" where
  "addTransaction e transactionData w =
     (let w1 = (if err_rpc_customer e then w
                else create_customer_if_not_exists (txCustomerName transactionData)
                       (txCustomerPhone transactionData) (txCustomerEmail transactionData) w)
      in if err_insert_transaction e then (Inl StoreError, w1)
         else
           let newId = db_next_id w1;
               w2 = w1\<lparr>db_transactions := db_transactions w1 @
                         [\<lparr>t_id = newId,
                           t_type = txType transactionData,
                           t_product_id = txProductId transactionData,
                           t_quantity = txQuantity transactionData,
                           t_total_amount = txTotalAmount transactionData,
                           t_amount_paid = num_or (txAmountPaid transactionData)
                                             (txTotalAmount transactionData),
                           t_remaining_amount = num_or (txRemainingAmount transactionData) 0,
                           t_payment_status =
                             status_or (txPaymentStatus transactionData) Completed,
                           t_customer_name = txCustomerName transactionData,
                           t_customer_phone = txCustomerPhone transactionData,
                           t_customer_email = txCustomerEmail transactionData,
                           t_created_at = now e\<rparr>],
                       db_next_id := Suc newId\<rparr>
           in case (if txType transactionData = Sale
                    then updateStock e (txProductId transactionData)
                           (- txQuantity transactionData) w2
                    else (Inr (), w2)) of
                (Inl err, w3) \<Rightarrow> (Inl err, w3)
              | (Inr u, w3) \<Rightarrow> (Inr newId, loadCustomers e (loadTransactions e w3)))"

section \<open>Statistics\<close>






section \<open>A shop to run the functions on\<close>

text \<open>
  One product with a stock of 3; one sale of 500 of which 200 are paid; one rental of the
  product from 2024-06-10 (day 19884) to 2024-06-11, of 1000 of which 400 are paid, with
  its two calendar rows. \<open>shop\<close> is that database with the four lists loaded.
\<close>

definition shop_db :: world where
  "shop_db =
     \<lparr>db_products = [\<lparr>p_id = 4, p_name = ''robe'', p_stock = 3\<rparr>],
      db_transactions =
        [\<lparr>t_id = 7, t_type = Sale, t_product_id = 4, t_quantity = 1,
          t_total_amount = 500, t_amount_paid = 200, t_remaining_amount = 300,
          t_payment_status = Partial, t_customer_name = ''Amina'',
          t_customer_phone = ''0555'', t_customer_email = None, t_created_at = 0\<rparr>],
      db_rentals =
        [\<lparr>r_id = 8, r_product_id = 4, r_rental_start_date = 19884,
          r_rental_end_date = 19885, r_total_amount = 1000, r_amount_paid = 400,
          r_remaining_amount = 600, r_payment_status = Partial, r_status = Active,
          r_returned_at = None, r_created_at = 0\<rparr>],
      db_rental_calendar =
        [\<lparr>c_product_id = 4, c_rental_id = 8, c_reserved_date = 19884, c_status = Reserved\<rparr>,
         \<lparr>c_product_id = 4, c_rental_id = 8, c_reserved_date = 19885, c_status = Reserved\<rparr>],
      db_customers = [],
      db_next_id = 9,
      products = [], transactions = [], rentals = [], customers = []\<rparr>"

definition shop :: world where
  "shop = loadCustomers (calm 0) (loadRentals (calm 0)
            (loadTransactions (calm 0) (loadProducts (calm 0) shop_db)))"

text \<open>The sale and the rental of the shop as the loaders format them.\<close>

definition sale7 :: Transaction where
  "sale7 = format_transaction (hd (db_transactions shop_db))"

definition rental8 :: Rental where
  "rental8 = format_rental (hd (db_rentals shop_db))"

definition robe :: Product where
  "robe = format_product (hd (db_products shop_db))"

text \<open>A rental of the product, of 1000 with nothing said about payment, between two
  time values.\<close>

definition booking :: "date \<Rightarrow> date \<Rightarrow> RentalData" where
  "booking s t =
     \<lparr>productId = 4, rentalStartDate = s, rentalEndDate = t, totalAmount = 1000,
      amountPaid = None, remainingAmount = None, paymentStatus = None,
      status = Active, returnedAt = None\<rparr>"

text \<open>
  The same shop with a second sale, of 500 of which nothing is paid: the column
  \<^verbatim>\<open>amount_paid\<close> holds 0, its default in the migration.
\<close>

definition unpaid_db :: world where
  "unpaid_db = shop_db\<lparr>db_transactions := db_transactions shop_db @
       [\<lparr>t_id = 9, t_type = Sale, t_product_id = 4, t_quantity = 1,
         t_total_amount = 500, t_amount_paid = 0, t_remaining_amount = 500,
         t_payment_status = Pending, t_customer_name = ''Karim'',
         t_customer_phone = ''0999'', t_customer_email = None, t_created_at = 1\<rparr>],
     db_next_id := 10\<rparr>"

definition unpaid :: world where
  "unpaid = loadCustomers (calm 0) (loadRentals (calm 0)
              (loadTransactions (calm 0) (loadProducts (calm 0) unpaid_db)))"

text \<open>
  Central European time in 2024: one hour ahead of UTC, two hours from 2024-03-31 01:00
  UTC to 2024-10-27 01:00 UTC. A local time that the change of March skips or the change
  of October repeats has the offset from before the change, as ECMAScript says.
\<close>

definition paris :: env where
  "paris = (calm 0)
     \<lparr>tza_utc := (\<lambda>t. if 1711846800000 \<le> t \<and> t < 1729990800000
                        then 2 * ms_per_hour else ms_per_hour),
      tza_local := (\<lambda>l. if 1711854000000 \<le> l \<and> l < 1729998000000
                          then 2 * ms_per_hour else ms_per_hour)\<rparr>"

text \<open>A sale of \<open>q\<close> pieces of the product, paid in full.\<close>

definition sale_of :: "int \<Rightarrow> TransactionData" where
  "sale_of q =
     \<lparr>txType = Sale, txProductId = 4, txQuantity = q, txTotalAmount = 500,
      txAmountPaid = None, txRemainingAmount = None, txPaymentStatus = None,
      txCustomerName = ''Amina'', txCustomerPhone = ''0555'', txCustomerEmail = None\<rparr>"

section \<open>Facts about the primitives\<close>

lemma num_or_zero [simp]: "num_or (Some p) 0 = p" "num_or None 0 = 0"
  by (simp_all add: num_or_def)


lemma length_update_where [simp]: "length (update_where p f rows) = length rows"
  by (simp add: update_where_def)

lemma update_where_idem:
  assumes "\<And>r. p r \<Longrightarrow> p (f r)" and "\<And>r. p r \<Longrightarrow> f (f r) = f r"
  shows "update_where p f (update_where p f rows) = update_where p f rows"
  using assms by (induction rows) (auto simp: update_where_def)

section \<open>The payment ledger\<close>

lemma updateTransactionPayment_found:
  assumes "find (\<lambda>t. txId t = tid) (transactions w) = Some t"
    and "\<not> err_update_transaction e"
  shows "fst (updateTransactionPayment e tid a w) = Inr ()"
    and "db_transactions (snd (updateTransactionPayment e tid a w)) =
          update_where (\<lambda>row. t_id row = tid)
            (\<lambda>row. row\<lparr>t_amount_paid := num_or (txAmountPaid t) 0 + a,
               t_remaining_amount := max 0 (txTotalAmount t - (num_or (txAmountPaid t) 0 + a)),
               t_payment_status :=
                 payment_status_of (max 0 (txTotalAmount t - (num_or (txAmountPaid t) 0 + a)))
                   (num_or (txAmountPaid t) 0 + a)\<rparr>)
            (db_transactions w)"
  using assms
  by (simp_all add: updateTransactionPayment_def Let_def loadTransactions_def)

lemma updateRentalPayment_found:
  assumes "find (\<lambda>r. rentalId r = rid) (rentals w) = Some r"
    and "\<not> err_update_rental e"
  shows "fst (updateRentalPayment e rid a w) = Inr ()"
    and "db_rentals (snd (updateRentalPayment e rid a w)) =
          update_where (\<lambda>row. r_id row = rid)
            (\<lambda>row. row\<lparr>r_amount_paid := num_or (amountPaid r) 0 + a,
               r_remaining_amount := max 0 (totalAmount r - (num_or (amountPaid r) 0 + a)),
               r_payment_status :=
                 payment_status_of (max 0 (totalAmount r - (num_or (amountPaid r) 0 + a)))
                   (num_or (amountPaid r) 0 + a)\<rparr>)
            (db_rentals w)"
  using assms
  by (simp_all add: updateRentalPayment_def Let_def loadRentals_def)

lemma shop_lists:
  "transactions shop = [sale7]" "rentals shop = [rental8]" "products shop = [robe]"
  "db_transactions shop = db_transactions shop_db" "db_rentals shop = db_rentals shop_db"
  "db_products shop = db_products shop_db"
  "db_rental_calendar shop = db_rental_calendar shop_db"
  "db_next_id shop = 9"
  by (simp_all add: shop_def sale7_def rental8_def robe_def loadCustomers_def loadRentals_def
      loadTransactions_def loadProducts_def calm_def shop_db_def)

lemma shop_objects:
  "txId sale7 = 7" "txAmountPaid sale7 = Some 200" "txTotalAmount sale7 = 500"
  "rentalId rental8 = 8" "amountPaid rental8 = Some 400" "totalAmount rental8 = 1000"
  "prodId robe = 4" "prodStock robe = 3"
  by (simp_all add: sale7_def rental8_def robe_def shop_db_def format_transaction_def
      format_rental_def format_product_def num_or_def)

lemma update_where_hit:
  assumes "x \<in> set (update_where p f rows)" and "p x" and "\<And>r. p (f r) = p r"
  shows "\<exists>r\<in>set rows. p r \<and> x = f r"
  using assms by (induction rows) (auto simp: update_where_def split: if_splits)



lemma shop_finds:
  "find (\<lambda>t. txId t = 7) (transactions shop) = Some sale7"
  "find (\<lambda>r. rentalId r = 8) (rentals shop) = Some rental8"
  "find (\<lambda>p. prodId p = 4) (products shop) = Some robe"
  by (simp_all add: shop_lists shop_objects)

lemma calm_ok:
  "\<not> err_update_transaction (calm t)" "\<not> err_update_rental (calm t)"
  "\<not> err_update_product (calm t)" "\<not> err_update_calendar (calm t)"
  "\<not> err_insert_rental (calm t)" "\<not> err_insert_calendar (calm t)"
  "\<not> err_insert_transaction (calm t)" "\<not> err_select_calendar (calm t)"
  "\<not> err_select_rentals (calm t)" "\<not> err_select_transactions (calm t)"
  "\<not> err_select_products (calm t)" "\<not> err_select_customers (calm t)"
  "\<not> err_rpc_customer (calm t)" "now (calm t) = t"
  "tza_utc (calm t) u = 0" "tza_local (calm t) l = 0"
  by (simp_all add: calm_def)




text \<open>
  The object that a payment function finds in the list is the one the loader formatted:
  its \<^verbatim>\<open>amountPaid\<close> is the column \<^verbatim>\<open>amount_paid\<close>, and the total when the column holds 0
  (\<^verbatim>\<open>item.amount_paid || item.total_amount\<close>).
\<close>

lemma loaded_amount_paid:
  "txAmountPaid (format_transaction item) =
     Some (if t_amount_paid item = 0 then t_total_amount item else t_amount_paid item)"
  "amountPaid (format_rental row) =
     Some (if r_amount_paid row = 0 then r_total_amount row else r_amount_paid row)"
  by (simp_all add: format_transaction_def format_rental_def num_or_def)

text \<open>
  Claim C3 says that a payment on a target with prior paid amount \<open>p\<close> writes \<open>p + a\<close>. The
  second sale of the shop \<open>unpaid\<close> has a total of 500 and a stored amount paid of 0; the
  loader gives its object the amount paid 500. A payment of 200 returns normally and
  writes 700 paid, 0 remaining and the status completed, where the claim has 200 paid, 300
  remaining and partial.
\<close>

theorem applyPayment_prior_counterexample:
  "map t_amount_paid (db_transactions unpaid) = [200, 0]
   \<and> map txId (transactions unpaid) = [9, 7]
   \<and> map txAmountPaid (transactions unpaid) = [Some 500, Some 200]
   \<and> fst (updateTransactionPayment (calm 0) 9 200 unpaid) = Inr ()
   \<and> db_transactions (snd (updateTransactionPayment (calm 0) 9 200 unpaid)) =
       [\<lparr>t_id = 7, t_type = Sale, t_product_id = 4, t_quantity = 1,
         t_total_amount = 500, t_amount_paid = 200, t_remaining_amount = 300,
         t_payment_status = Partial, t_customer_name = ''Amina'',
         t_customer_phone = ''0555'', t_customer_email = None, t_created_at = 0\<rparr>,
        \<lparr>t_id = 9, t_type = Sale, t_product_id = 4, t_quantity = 1,
         t_total_amount = 500, t_amount_paid = 700, t_remaining_amount = 0,
         t_payment_status = Completed, t_customer_name = ''Karim'',
         t_customer_phone = ''0999'', t_customer_email = None, t_created_at = 1\<rparr>]"
  by code_simp

text \<open>
  Claim C3, amended. The prior paid amount \<open>p\<close> is the \<^verbatim>\<open>amountPaid || 0\<close> of the object
  found in the list, which the loader sets to the stored amount, or to the total when the
  stored amount is 0; \<open>T\<close> is the total of that object. For \<open>p\<close>, \<open>T\<close> and the payment \<open>a\<close>
  whole amounts, which JavaScript numbers add and subtract without rounding, a payment
  whose store update succeeds returns normally and rewrites the table in exactly the rows
  of the target, which get \<open>amount_paid = p + a\<close>, \<open>remaining_amount = max 0 (T - (p + a))\<close> and
  the status completed when that remaining amount is 0, else partial when \<open>p + a > 0\<close>, else
  pending; every other row, and every other column, stays. On overpayment the amount
  written exceeds \<open>T\<close> and the remaining amount written is 0. Both
  \<^verbatim>\<open>updateTransactionPayment\<close> and \<^verbatim>\<open>updateRentalPayment\<close>.
\<close>

theorem applyPayment_writes:
  "(find (\<lambda>t. txId t = tid) (transactions w) = Some t \<and> \<not> err_update_transaction e
      \<and> p = num_or (txAmountPaid t) 0 \<and> T = txTotalAmount t
      \<and> whole_amount p \<and> whole_amount T \<and> whole_amount a
    \<longrightarrow> fst (updateTransactionPayment e tid a w) = Inr ()
      \<and> db_transactions (snd (updateTransactionPayment e tid a w)) =
          map (\<lambda>row. if t_id row = tid
                      then row\<lparr>t_amount_paid := p + a,
                             t_remaining_amount := max 0 (T - (p + a)),
                             t_payment_status :=
                               (if max 0 (T - (p + a)) = 0 then Completed
                                else if p + a > 0 then Partial else Pending)\<rparr>
                      else row)
            (db_transactions w)
      \<and> (T < p + a \<longrightarrow> max 0 (T - (p + a)) = 0))
   \<and> (find (\<lambda>r. rentalId r = rid) (rentals w) = Some r \<and> \<not> err_update_rental e
      \<and> p' = num_or (amountPaid r) 0 \<and> T' = totalAmount r
      \<and> whole_amount p' \<and> whole_amount T' \<and> whole_amount a'
    \<longrightarrow> fst (updateRentalPayment e rid a' w) = Inr ()
      \<and> db_rentals (snd (updateRentalPayment e rid a' w)) =
          map (\<lambda>row. if r_id row = rid
                      then row\<lparr>r_amount_paid := p' + a',
                             r_remaining_amount := max 0 (T' - (p' + a')),
                             r_payment_status :=
                               (if max 0 (T' - (p' + a')) = 0 then Completed
                                else if p' + a' > 0 then Partial else Pending)\<rparr>
                      else row)
            (db_rentals w)
      \<and> (T' < p' + a' \<longrightarrow> max 0 (T' - (p' + a')) = 0))
   \<and> txAmountPaid (format_transaction item) =
       Some (if t_amount_paid item = 0 then t_total_amount item else t_amount_paid item)
   \<and> amountPaid (format_rental ritem) =
       Some (if r_amount_paid ritem = 0 then r_total_amount ritem else r_amount_paid ritem)"
proof -
  have tx: "find (\<lambda>t. txId t = tid) (transactions w) = Some t \<and> \<not> err_update_transaction e
      \<and> p = num_or (txAmountPaid t) 0 \<and> T = txTotalAmount t
      \<and> whole_amount p \<and> whole_amount T \<and> whole_amount a
    \<longrightarrow> fst (updateTransactionPayment e tid a w) = Inr ()
      \<and> db_transactions (snd (updateTransactionPayment e tid a w)) =
          map (\<lambda>row. if t_id row = tid
                      then row\<lparr>t_amount_paid := p + a,
                             t_remaining_amount := max 0 (T - (p + a)),
                             t_payment_status :=
                               (if max 0 (T - (p + a)) = 0 then Completed
                                else if p + a > 0 then Partial else Pending)\<rparr>
                      else row)
            (db_transactions w)
      \<and> (T < p + a \<longrightarrow> max 0 (T - (p + a)) = 0)"
  proof (rule impI, elim conjE)
    assume h: "find (\<lambda>t. txId t = tid) (transactions w) = Some t" "\<not> err_update_transaction e"
      and v: "p = num_or (txAmountPaid t) 0" "T = txTotalAmount t"
    show "fst (updateTransactionPayment e tid a w) = Inr ()
      \<and> db_transactions (snd (updateTransactionPayment e tid a w)) =
          map (\<lambda>row. if t_id row = tid
                      then row\<lparr>t_amount_paid := p + a,
                             t_remaining_amount := max 0 (T - (p + a)),
                             t_payment_status :=
                               (if max 0 (T - (p + a)) = 0 then Completed
                                else if p + a > 0 then Partial else Pending)\<rparr>
                      else row)
            (db_transactions w)
      \<and> (T < p + a \<longrightarrow> max 0 (T - (p + a)) = 0)"
      by (simp add: updateTransactionPayment_found [OF h] v update_where_def
          payment_status_of_def)
  qed
  have rt: "find (\<lambda>r. rentalId r = rid) (rentals w) = Some r \<and> \<not> err_update_rental e
      \<and> p' = num_or (amountPaid r) 0 \<and> T' = totalAmount r
      \<and> whole_amount p' \<and> whole_amount T' \<and> whole_amount a'
    \<longrightarrow> fst (updateRentalPayment e rid a' w) = Inr ()
      \<and> db_rentals (snd (updateRentalPayment e rid a' w)) =
          map (\<lambda>row. if r_id row = rid
                      then row\<lparr>r_amount_paid := p' + a',
                             r_remaining_amount := max 0 (T' - (p' + a')),
                             r_payment_status :=
                               (if max 0 (T' - (p' + a')) = 0 then Completed
                                else if p' + a' > 0 then Partial else Pending)\<rparr>
                      else row)
            (db_rentals w)
      \<and> (T' < p' + a' \<longrightarrow> max 0 (T' - (p' + a')) = 0)"
  proof (rule impI, elim conjE)
    assume h: "find (\<lambda>r. rentalId r = rid) (rentals w) = Some r" "\<not> err_update_rental e"
      and v: "p' = num_or (amountPaid r) 0" "T' = totalAmount r"
    show "fst (updateRentalPayment e rid a' w) = Inr ()
      \<and> db_rentals (snd (updateRentalPayment e rid a' w)) =
          map (\<lambda>row. if r_id row = rid
                      then row\<lparr>r_amount_paid := p' + a',
                             r_remaining_amount := max 0 (T' - (p' + a')),
                             r_payment_status :=
                               (if max 0 (T' - (p' + a')) = 0 then Completed
                                else if p' + a' > 0 then Partial else Pending)\<rparr>
                      else row)
            (db_rentals w)
      \<and> (T' < p' + a' \<longrightarrow> max 0 (T' - (p' + a')) = 0)"
      by (simp add: updateRentalPayment_found [OF h] v update_where_def
          payment_status_of_def)
  qed
  show ?thesis
    by (rule conjI [OF tx conjI [OF rt conjI [OF loaded_amount_paid]]])
qed

lemma shop_whole:
  "whole_amount 100" "whole_amount 200" "whole_amount 500" "whole_amount 400"
  "whole_amount 700" "whole_amount 1000"
  by (simp_all add: whole_amount_def)

theorem applyPayment_writes_witness:
  "find (\<lambda>t. txId t = 7) (transactions shop) = Some sale7
   \<and> \<not> err_update_transaction (calm 0)
   \<and> num_or (txAmountPaid sale7) 0 = 200 \<and> txTotalAmount sale7 = 500
   \<and> whole_amount 200 \<and> whole_amount 500 \<and> whole_amount 100
   \<and> fst (updateTransactionPayment (calm 0) 7 100 shop) = Inr ()
   \<and> db_transactions (snd (updateTransactionPayment (calm 0) 7 100 shop)) =
       [\<lparr>t_id = 7, t_type = Sale, t_product_id = 4, t_quantity = 1,
         t_total_amount = 500, t_amount_paid = 300, t_remaining_amount = 200,
         t_payment_status = Partial, t_customer_name = ''Amina'',
         t_customer_phone = ''0555'', t_customer_email = None, t_created_at = 0\<rparr>]
   \<and> find (\<lambda>r. rentalId r = 8) (rentals shop) = Some rental8
   \<and> \<not> err_update_rental (calm 0)
   \<and> num_or (amountPaid rental8) 0 = 400 \<and> totalAmount rental8 = 1000
   \<and> whole_amount 400 \<and> whole_amount 1000 \<and> whole_amount 700
   \<and> fst (updateRentalPayment (calm 0) 8 700 shop) = Inr ()
   \<and> db_rentals (snd (updateRentalPayment (calm 0) 8 700 shop)) =
       [\<lparr>r_id = 8, r_product_id = 4, r_rental_start_date = 19884,
         r_rental_end_date = 19885, r_total_amount = 1000, r_amount_paid = 1100,
         r_remaining_amount = 0, r_payment_status = Completed, r_status = Active,
         r_returned_at = None, r_created_at = 0\<rparr>]"
proof -
  note inst = applyPayment_writes [where tid = 7 and w = shop and t = sale7 and e = "calm 0"
      and p = 200 and T = 500 and a = 100 and rid = 8 and r = rental8 and p' = 400
      and T' = 1000 and a' = 700 and item = "hd (db_transactions shop)"
      and ritem = "hd (db_rentals shop)"]
  have v: "num_or (txAmountPaid sale7) 0 = 200" "txTotalAmount sale7 = 500"
    "num_or (amountPaid rental8) 0 = 400" "totalAmount rental8 = 1000"
    by (simp_all add: shop_objects)
  have tx: "fst (updateTransactionPayment (calm 0) 7 100 shop) = Inr ()
      \<and> db_transactions (snd (updateTransactionPayment (calm 0) 7 100 shop)) =
          map (\<lambda>row. if t_id row = 7
                      then row\<lparr>t_amount_paid := 200 + 100,
                             t_remaining_amount := max 0 (500 - (200 + 100)),
                             t_payment_status :=
                               (if max 0 (500 - (200 + 100)) = (0 :: rat) then Completed
                                else if (200 + 100 :: rat) > 0 then Partial else Pending)\<rparr>
                      else row)
            (db_transactions shop)
      \<and> ((500 :: rat) < 200 + 100 \<longrightarrow> max 0 (500 - (200 + 100)) = (0 :: rat))"
    by (rule inst [THEN conjunct1, THEN mp])
       (simp add: shop_finds calm_ok v shop_whole)
  have rt: "fst (updateRentalPayment (calm 0) 8 700 shop) = Inr ()
      \<and> db_rentals (snd (updateRentalPayment (calm 0) 8 700 shop)) =
          map (\<lambda>row. if r_id row = 8
                      then row\<lparr>r_amount_paid := 400 + 700,
                             r_remaining_amount := max 0 (1000 - (400 + 700)),
                             r_payment_status :=
                               (if max 0 (1000 - (400 + 700)) = (0 :: rat) then Completed
                                else if (400 + 700 :: rat) > 0 then Partial else Pending)\<rparr>
                      else row)
            (db_rentals shop)
      \<and> ((1000 :: rat) < 400 + 700 \<longrightarrow> max 0 (1000 - (400 + 700)) = (0 :: rat))"
    by (rule inst [THEN conjunct2, THEN conjunct1, THEN mp])
       (simp add: shop_finds calm_ok v shop_whole)
  show ?thesis
    using tx rt
    by (simp add: shop_finds calm_ok v shop_whole shop_lists shop_objects shop_db_def)
qed








section \<open>Stock\<close>

lemma updateStock_found:
  assumes "find (\<lambda>p. prodId p = pid) (products w) = Some product"
    and "\<not> err_update_product e"
  shows "fst (updateStock e pid q w) = Inr ()"
    and "db_products (snd (updateStock e pid q w)) =
          update_where (\<lambda>row. p_id row = pid)
            (\<lambda>row. row\<lparr>p_stock := max 0 (prodStock product + q)\<rparr>) (db_products w)"
  using assms by (simp_all add: updateStock_def Let_def loadProducts_def)

lemma create_customer_keeps_products:
  "products (create_customer_if_not_exists n p m w) = products w"
  "db_products (create_customer_if_not_exists n p m w) = db_products w"
  by (simp_all add: create_customer_if_not_exists_def split: option.splits)

lemma addTransaction_sale:
  assumes "txType td = Sale"
    and "find (\<lambda>p. prodId p = txProductId td) (products w) = Some product"
    and "\<not> err_insert_transaction e" and "\<not> err_update_product e"
  shows "\<exists>newId. fst (addTransaction e td w) = Inr newId"
    and "db_products (snd (addTransaction e td w)) =
          update_where (\<lambda>row. p_id row = txProductId td)
            (\<lambda>row. row\<lparr>p_stock := max 0 (prodStock product - txQuantity td)\<rparr>)
            (db_products w)"
  using assms
  by (simp_all add: addTransaction_def updateStock_def Let_def loadProducts_def
      loadTransactions_def loadCustomers_def create_customer_keeps_products)

lemma stock_row:
  assumes "row \<in> set (update_where (\<lambda>row. p_id row = pid) (\<lambda>row. row\<lparr>p_stock := s\<rparr>) rows)"
    and "p_id row = pid"
  shows "p_stock row = s"
proof -
  from update_where_hit [OF assms(1)] assms(2)
  obtain old where "row = old\<lparr>p_stock := s\<rparr>" by auto
  then show ?thesis by simp
qed

text \<open>
  Claim C10. For a product found in the list, with \<open>stock\<close> the stock of the object
  found, \<^verbatim>\<open>updateStock\<close> whose store update succeeds returns normally and rewrites the table
  of products in exactly the rows of the product, whose stock becomes
  \<open>max 0 (stock + delta)\<close>: never negative, and 0 without an error when the decrement is
  larger than the stock. The same for the decrement by the quantity that \<^verbatim>\<open>addTransaction\<close>
  makes for a sale.
\<close>

theorem updateStock_floors_at_zero:
  "(find (\<lambda>p. prodId p = pid) (products w) = Some product \<and> \<not> err_update_product e
    \<longrightarrow> fst (updateStock e pid delta w) = Inr ()
      \<and> db_products (snd (updateStock e pid delta w)) =
          map (\<lambda>row. if p_id row = pid
                      then row\<lparr>p_stock := max 0 (prodStock product + delta)\<rparr> else row)
            (db_products w)
      \<and> (\<forall>row \<in> set (db_products (snd (updateStock e pid delta w))).
            p_id row = pid \<longrightarrow> 0 \<le> p_stock row
              \<and> (prodStock product + delta < 0 \<longrightarrow> p_stock row = 0)))
   \<and> (txType td = Sale
      \<and> find (\<lambda>p. prodId p = txProductId td) (products w) = Some product'
      \<and> \<not> err_insert_transaction e \<and> \<not> err_update_product e
    \<longrightarrow> (\<exists>newId. fst (addTransaction e td w) = Inr newId)
      \<and> db_products (snd (addTransaction e td w)) =
          map (\<lambda>row. if p_id row = txProductId td
                      then row\<lparr>p_stock := max 0 (prodStock product' - txQuantity td)\<rparr>
                      else row)
            (db_products w)
      \<and> (\<forall>row \<in> set (db_products (snd (addTransaction e td w))).
            p_id row = txProductId td \<longrightarrow> 0 \<le> p_stock row))"
proof -
  have a: "find (\<lambda>p. prodId p = pid) (products w) = Some product \<and> \<not> err_update_product e
    \<longrightarrow> fst (updateStock e pid delta w) = Inr ()
      \<and> db_products (snd (updateStock e pid delta w)) =
          map (\<lambda>row. if p_id row = pid
                      then row\<lparr>p_stock := max 0 (prodStock product + delta)\<rparr> else row)
            (db_products w)
      \<and> (\<forall>row \<in> set (db_products (snd (updateStock e pid delta w))).
            p_id row = pid \<longrightarrow> 0 \<le> p_stock row
              \<and> (prodStock product + delta < 0 \<longrightarrow> p_stock row = 0))"
  proof (rule impI, elim conjE)
    assume h: "find (\<lambda>p. prodId p = pid) (products w) = Some product" "\<not> err_update_product e"
    have r: "fst (updateStock e pid delta w) = Inr ()"
      by (rule updateStock_found(1) [OF h])
    have t: "db_products (snd (updateStock e pid delta w)) =
          map (\<lambda>row. if p_id row = pid
                      then row\<lparr>p_stock := max 0 (prodStock product + delta)\<rparr> else row)
            (db_products w)"
      by (simp add: updateStock_found(2) [OF h] update_where_def)
    have s: "\<forall>row \<in> set (db_products (snd (updateStock e pid delta w))).
            p_id row = pid \<longrightarrow> 0 \<le> p_stock row
              \<and> (prodStock product + delta < 0 \<longrightarrow> p_stock row = 0)"
    proof (intro ballI impI)
      fix row
      assume "row \<in> set (db_products (snd (updateStock e pid delta w)))" "p_id row = pid"
      then have "p_stock row = max 0 (prodStock product + delta)"
        using stock_row by (simp add: updateStock_found(2) [OF h])
      then show "0 \<le> p_stock row \<and> (prodStock product + delta < 0 \<longrightarrow> p_stock row = 0)"
        by simp
    qed
    show "fst (updateStock e pid delta w) = Inr ()
      \<and> db_products (snd (updateStock e pid delta w)) =
          map (\<lambda>row. if p_id row = pid
                      then row\<lparr>p_stock := max 0 (prodStock product + delta)\<rparr> else row)
            (db_products w)
      \<and> (\<forall>row \<in> set (db_products (snd (updateStock e pid delta w))).
            p_id row = pid \<longrightarrow> 0 \<le> p_stock row
              \<and> (prodStock product + delta < 0 \<longrightarrow> p_stock row = 0))"
      by (rule conjI [OF r conjI [OF t s]])
  qed
  have b: "txType td = Sale
      \<and> find (\<lambda>p. prodId p = txProductId td) (products w) = Some product'
      \<and> \<not> err_insert_transaction e \<and> \<not> err_update_product e
    \<longrightarrow> (\<exists>newId. fst (addTransaction e td w) = Inr newId)
      \<and> db_products (snd (addTransaction e td w)) =
          map (\<lambda>row. if p_id row = txProductId td
                      then row\<lparr>p_stock := max 0 (prodStock product' - txQuantity td)\<rparr>
                      else row)
            (db_products w)
      \<and> (\<forall>row \<in> set (db_products (snd (addTransaction e td w))).
            p_id row = txProductId td \<longrightarrow> 0 \<le> p_stock row)"
  proof (rule impI, elim conjE)
    assume h: "txType td = Sale"
      "find (\<lambda>p. prodId p = txProductId td) (products w) = Some product'"
      "\<not> err_insert_transaction e" "\<not> err_update_product e"
    have r: "\<exists>newId. fst (addTransaction e td w) = Inr newId"
      by (rule addTransaction_sale(1) [OF h])
    have t: "db_products (snd (addTransaction e td w)) =
          map (\<lambda>row. if p_id row = txProductId td
                      then row\<lparr>p_stock := max 0 (prodStock product' - txQuantity td)\<rparr>
                      else row)
            (db_products w)"
      by (simp add: addTransaction_sale(2) [OF h] update_where_def)
    have s: "\<forall>row \<in> set (db_products (snd (addTransaction e td w))).
            p_id row = txProductId td \<longrightarrow> 0 \<le> p_stock row"
    proof (intro ballI impI)
      fix row
      assume "row \<in> set (db_products (snd (addTransaction e td w)))"
        "p_id row = txProductId td"
      then have "p_stock row = max 0 (prodStock product' - txQuantity td)"
        using stock_row by (simp add: addTransaction_sale(2) [OF h])
      then show "0 \<le> p_stock row" by simp
    qed
    show "(\<exists>newId. fst (addTransaction e td w) = Inr newId)
      \<and> db_products (snd (addTransaction e td w)) =
          map (\<lambda>row. if p_id row = txProductId td
                      then row\<lparr>p_stock := max 0 (prodStock product' - txQuantity td)\<rparr>
                      else row)
            (db_products w)
      \<and> (\<forall>row \<in> set (db_products (snd (addTransaction e td w))).
            p_id row = txProductId td \<longrightarrow> 0 \<le> p_stock row)"
      by (rule conjI [OF r conjI [OF t s]])
  qed
  show ?thesis by (rule conjI [OF a b])
qed

theorem updateStock_floors_at_zero_witness:
  "find (\<lambda>p. prodId p = 4) (products shop) = Some robe
   \<and> \<not> err_update_product (calm 0)
   \<and> prodStock robe = 3
   \<and> fst (updateStock (calm 0) 4 (- 5) shop) = Inr ()
   \<and> db_products (snd (updateStock (calm 0) 4 (- 5) shop))
       = [\<lparr>p_id = 4, p_name = ''robe'', p_stock = 0\<rparr>]
   \<and> txType (sale_of 2) = Sale
   \<and> find (\<lambda>p. prodId p = txProductId (sale_of 2)) (products shop) = Some robe
   \<and> \<not> err_insert_transaction (calm 0)
   \<and> fst (addTransaction (calm 0) (sale_of 2) shop) = Inr 10
   \<and> db_products (snd (addTransaction (calm 0) (sale_of 2) shop))
       = [\<lparr>p_id = 4, p_name = ''robe'', p_stock = 1\<rparr>]"
proof -
  have s: "txType (sale_of 2) = Sale" "txProductId (sale_of 2) = 4" "txQuantity (sale_of 2) = 2"
    by (simp_all add: sale_of_def)
  have f: "find (\<lambda>p. prodId p = txProductId (sale_of 2)) (products shop) = Some robe"
    by (simp add: s shop_lists shop_objects)
  have n: "fst (addTransaction (calm 0) (sale_of 2) shop) = Inr 10"
    by code_simp
  note inst = updateStock_floors_at_zero [where pid = 4 and w = shop and product = robe
      and e = "calm 0" and delta = "- 5" and td = "sale_of 2" and product' = robe]
  have a: "db_products (snd (updateStock (calm 0) 4 (- 5) shop)) =
          map (\<lambda>row. if p_id row = 4
                      then row\<lparr>p_stock := max 0 (prodStock robe + (- 5))\<rparr> else row)
            (db_products shop)"
    "fst (updateStock (calm 0) 4 (- 5) shop) = Inr ()"
    using inst [THEN conjunct1, THEN mp, OF conjI [OF shop_finds(3) calm_ok(3)]]
    by simp_all
  have b: "db_products (snd (addTransaction (calm 0) (sale_of 2) shop)) =
          map (\<lambda>row. if p_id row = txProductId (sale_of 2)
                      then row\<lparr>p_stock := max 0 (prodStock robe - txQuantity (sale_of 2))\<rparr>
                      else row)
            (db_products shop)"
    using inst [THEN conjunct2, THEN mp,
        OF conjI [OF s(1) conjI [OF f conjI [OF calm_ok(7) calm_ok(3)]]]]
    by simp
  show ?thesis
    using a b f n s(1) shop_finds(3) calm_ok(3,7)
    by (simp add: shop_objects s shop_lists shop_db_def)
qed

section \<open>The days of a rental\<close>

lemma iso_day_next: "iso_day (c + ms_per_day) = iso_day c + 1"
  by (simp add: iso_day_def ms_per_day_def)

lemma span_next: "(e - (c + ms_per_day)) div ms_per_day = (e - c) div ms_per_day - 1"
proof -
  have "e - (c + ms_per_day) = (e - c) + (- 1) * ms_per_day" by simp
  then have "(e - (c + ms_per_day)) div ms_per_day = (e - c) div ms_per_day + (- 1)"
    by (simp only: div_mult_self1 [of ms_per_day "e - c" "- 1"] ms_per_day_def)
  then show ?thesis by simp
qed

lemma span_sign: "c \<le> e \<longleftrightarrow> 0 \<le> (e - c) div ms_per_day"
  by (simp add: ms_per_day_def pos_imp_zdiv_nonneg_iff)

text \<open>In a zone whose local days between the two dates last 24 hours the loop ends, with
  one row for each step of 24 hours from the start that is not after the end.\<close>

lemma rental_dates_days:
  assumes "\<forall>t. c \<le> t \<and> t \<le> e' \<longrightarrow> next_local_day e t = t + ms_per_day"
  shows "rental_dates e pid rid dates c e' =
     Some (dates @
       map (\<lambda>d. \<lparr>c_product_id = pid, c_rental_id = rid, c_reserved_date = d, c_status = Reserved\<rparr>)
         [iso_day c .. iso_day c + (e' - c) div ms_per_day])"
  using assms
proof (induction "nat (e' - c + 1)" arbitrary: c dates rule: less_induct)
  case less
  let ?row = "\<lambda>d. \<lparr>c_product_id = pid, c_rental_id = rid, c_reserved_date = d,
                     c_status = Reserved\<rparr>"
  show ?case
  proof (cases "c \<le> e'")
    case True
    then have le: "iso_day c \<le> iso_day c + (e' - c) div ms_per_day"
      using span_sign [of c e'] by simp
    have nxt: "next_local_day e c = c + ms_per_day"
      using less.prems True by simp
    have step: "rental_dates e pid rid dates c e'
                = rental_dates e pid rid (dates @ [?row (iso_day c)]) (c + ms_per_day) e'"
      using True by (subst rental_dates.simps) (simp add: nxt)
    have smaller: "nat (e' - (c + ms_per_day) + 1) < nat (e' - c + 1)"
      using True by (simp add: ms_per_day_def)
    have zone: "\<forall>t. c + ms_per_day \<le> t \<and> t \<le> e' \<longrightarrow> next_local_day e t = t + ms_per_day"
      using less.prems by (simp add: ms_per_day_def)
    have "rental_dates e pid rid (dates @ [?row (iso_day c)]) (c + ms_per_day) e'
          = Some ((dates @ [?row (iso_day c)]) @
              map ?row [iso_day (c + ms_per_day) ..
                         iso_day (c + ms_per_day) + (e' - (c + ms_per_day)) div ms_per_day])"
      by (rule less.hyps [OF smaller zone])
    also have "\<dots> = Some (dates @ ?row (iso_day c) #
                 map ?row [iso_day c + 1 .. iso_day c + (e' - c) div ms_per_day])"
      by (simp add: iso_day_next span_next)
    also have "\<dots> = Some (dates @ map ?row [iso_day c .. iso_day c + (e' - c) div ms_per_day])"
      by (simp add: upto_rec1 [OF le])
    finally show ?thesis by (simp only: step)
  next
    case False
    then have "iso_day c + (e' - c) div ms_per_day < iso_day c"
      using span_sign [of c e'] by simp
    with False show ?thesis
      by (subst rental_dates.simps) simp
  qed
qed

lemma last_day:
  assumes "s mod ms_per_day \<le> e mod ms_per_day"
  shows "iso_day s + (e - s) div ms_per_day = iso_day e"
proof -
  let ?D = ms_per_day
  have D: "0 < ?D" by (simp add: ms_per_day_def)
  have "e - s = (e mod ?D - s mod ?D) + (e div ?D - s div ?D) * ?D"
    by (simp add: algebra_simps)
  moreover have "0 \<le> e mod ?D - s mod ?D" "e mod ?D - s mod ?D < ?D"
    using assms D pos_mod_bound [of ?D e] pos_mod_sign [of ?D s] by linarith+
  ultimately have "(e - s) div ?D = e div ?D - s div ?D"
    using D by simp
  then show ?thesis by (simp add: iso_day_def)
qed

lemma calm_step: "next_local_day (calm n) t = t + ms_per_day"
  by (simp add: next_local_day_def UTC_def LocalTime_def calm_def)

section \<open>Committing a rental\<close>

lemma check_blocked:
  assumes "row \<in> set (db_rental_calendar w)" and "c_product_id row = pid"
    and "c_status row = Reserved"
    and "iso_day s \<le> c_reserved_date row" and "c_reserved_date row \<le> iso_day t"
  shows "\<not> checkProductAvailability e pid s t w"
proof -
  from assms have "filter (\<lambda>row. c_product_id row = pid \<and> c_status row = Reserved
                        \<and> iso_day s \<le> c_reserved_date row
                        \<and> c_reserved_date row \<le> iso_day t) (db_rental_calendar w) \<noteq> []"
    by (auto simp: filter_empty_conv)
  then show ?thesis by (simp add: checkProductAvailability_def Let_def)
qed

lemma addRental_blocked:
  assumes "\<not> checkProductAvailability e (productId rd) (rentalStartDate rd) (rentalEndDate rd) w"
  shows "addRental e rd w = Some (Inl Conflict, w)"
  using assms by (simp add: addRental_def Let_def)

text \<open>What a call that returns an id has done.\<close>

lemma addRental_Inr:
  assumes "addRental e rd w = Some (Inr newId, w')"
  shows "checkProductAvailability e (productId rd) (rentalStartDate rd) (rentalEndDate rd) w"
    and "\<not> err_insert_rental e" and "newId = db_next_id w"
    and "\<exists>dates. rental_dates e (productId rd) newId []
                    (rentalStartDate rd) (rentalEndDate rd) = Some dates
           \<and> db_rental_calendar w' =
               (if err_insert_calendar e then db_rental_calendar w
                else db_rental_calendar w @ dates)"
  using assms
  by (auto simp: addRental_def Let_def insert_rental_def insert_calendar_def loadRentals_def
      split: if_splits option.splits)

text \<open>A call returns when the loop over its days ends.\<close>

lemma addRental_returns:
  assumes "rental_dates e (productId rd) (db_next_id w) []
             (rentalStartDate rd) (rentalEndDate rd) \<noteq> None"
  shows "addRental e rd w \<noteq> None"
  using assms
  by (auto simp: addRental_def Let_def insert_rental_def insert_calendar_def
      split: if_splits option.splits)

text \<open>
  Claim C1. When a calendar row of the product with status reserved has its date within
  the UTC days of start and end, \<^verbatim>\<open>addRental\<close> throws the error of an unavailable product
  and leaves the database and the lists as they were: no rental row, no calendar row.
\<close>

theorem addRental_conflict:
  "row \<in> set (db_rental_calendar w) \<and> c_product_id row = productId rd
     \<and> c_status row = Reserved
     \<and> iso_day (rentalStartDate rd) \<le> c_reserved_date row
     \<and> c_reserved_date row \<le> iso_day (rentalEndDate rd)
   \<longrightarrow> addRental e rd w = Some (Inl Conflict, w)"
proof (rule impI, elim conjE)
  assume "row \<in> set (db_rental_calendar w)" "c_product_id row = productId rd"
    "c_status row = Reserved" "iso_day (rentalStartDate rd) \<le> c_reserved_date row"
    "c_reserved_date row \<le> iso_day (rentalEndDate rd)"
  then have "\<not> checkProductAvailability e (productId rd)
                 (rentalStartDate rd) (rentalEndDate rd) w"
    by (rule check_blocked)
  then show "addRental e rd w = Some (Inl Conflict, w)"
    by (rule addRental_blocked)
qed

lemma booking_fields:
  "productId (booking s t) = 4" "rentalStartDate (booking s t) = s"
  "rentalEndDate (booking s t) = t"
  by (simp_all add: booking_def)

lemma iso_day_eval: "0 \<le> h \<Longrightarrow> h < 24 \<Longrightarrow> iso_day (date_of_day d + h * ms_per_hour) = d"
  by (simp add: iso_day_def date_of_day_def ms_per_hour_def ms_per_day_def)

lemma iso_day_midnight: "iso_day (date_of_day d) = d"
  by (simp add: iso_day_def date_of_day_def ms_per_day_def)

theorem addRental_conflict_witness:
  "hd (tl (db_rental_calendar shop)) \<in> set (db_rental_calendar shop)
   \<and> c_product_id (hd (tl (db_rental_calendar shop)))
       = productId (booking (date_of_day 19885) (date_of_day 19886))
   \<and> c_status (hd (tl (db_rental_calendar shop))) = Reserved
   \<and> c_reserved_date (hd (tl (db_rental_calendar shop))) = 19885
   \<and> iso_day (rentalStartDate (booking (date_of_day 19885) (date_of_day 19886))) = 19885
   \<and> iso_day (rentalEndDate (booking (date_of_day 19885) (date_of_day 19886))) = 19886
   \<and> addRental (calm 0) (booking (date_of_day 19885) (date_of_day 19886)) shop
       = Some (Inl Conflict, shop)"
  using addRental_conflict [where row = "hd (tl (db_rental_calendar shop))" and w = shop
      and rd = "booking (date_of_day 19885) (date_of_day 19886)" and e = "calm 0"]
  by (simp add: shop_lists shop_db_def booking_fields iso_day_midnight)

lemma one_per_day:
  assumes "a \<le> d" and "d \<le> b"
  shows "length (filter (\<lambda>row. c_rental_id row = rid \<and> c_status row = Reserved
                      \<and> c_reserved_date row = d)
           (map (\<lambda>d. \<lparr>c_product_id = pid, c_rental_id = rid, c_reserved_date = d,
                       c_status = Reserved\<rparr>) [a .. b])) = 1"
proof -
  have "filter (\<lambda>x. x = d) [a .. b] = [d]"
    using assms
  proof (induction a b rule: upto.induct)
    case (1 i j)
    show ?case
    proof (cases "i = d")
      case True
      have "filter (\<lambda>x. x = d) [i + 1 .. j] = []"
        using True by (auto simp: filter_empty_conv)
      with True 1(2,3) show ?thesis
        by (subst upto_rec1) simp_all
    next
      case False
      with 1 have "filter (\<lambda>x. x = d) [i + 1 .. j] = [d]" by simp
      with False 1(2,3) show ?thesis
        by (subst upto_rec1) simp_all
    qed
  qed
  then have "length (filter (\<lambda>x. x = d) [a .. b]) = 1" by simp
  then show ?thesis by (simp add: filter_map comp_def)
qed

text \<open>
  Claim C2 says that every successful \<^verbatim>\<open>addRental\<close> with start not after end creates one
  reserved calendar row for each day from start to end, compared by day. Three runs on the
  shop, each returning the new id 9. A rental from 2024-06-20 15:00 to 2024-06-22 10:00
  (UTC) gets rows for the 20th and the 21st and none for the 22nd. A rental of the single
  day 2024-06-20 whose calendar insert comes back with an error gets no row. In the zone
  of Paris a rental from 2024-03-30 to 2024-04-01, both at midnight UTC, gets a row for
  the 30th, two rows for the 31st, the day the clocks go forward, and none for the 1st.
\<close>

theorem addRental_days_counterexample:
  "map_option fst (addRental (calm 0)
          (booking (date_of_day 19894 + 15 * ms_per_hour) (date_of_day 19896 + 10 * ms_per_hour))
          shop) = Some (Inr 9)
   \<and> iso_day (date_of_day 19894 + 15 * ms_per_hour) = 19894
   \<and> iso_day (date_of_day 19896 + 10 * ms_per_hour) = 19896
   \<and> map_option (db_rental_calendar \<circ> snd) (addRental (calm 0)
          (booking (date_of_day 19894 + 15 * ms_per_hour) (date_of_day 19896 + 10 * ms_per_hour))
          shop) =
       Some [\<lparr>c_product_id = 4, c_rental_id = 8, c_reserved_date = 19884, c_status = Reserved\<rparr>,
        \<lparr>c_product_id = 4, c_rental_id = 8, c_reserved_date = 19885, c_status = Reserved\<rparr>,
        \<lparr>c_product_id = 4, c_rental_id = 9, c_reserved_date = 19894, c_status = Reserved\<rparr>,
        \<lparr>c_product_id = 4, c_rental_id = 9, c_reserved_date = 19895, c_status = Reserved\<rparr>]
   \<and> map_option fst (addRental ((calm 0)\<lparr>err_insert_calendar := True\<rparr>)
          (booking (date_of_day 19894) (date_of_day 19894)) shop) = Some (Inr 9)
   \<and> map_option (db_rental_calendar \<circ> snd)
        (addRental ((calm 0)\<lparr>err_insert_calendar := True\<rparr>)
          (booking (date_of_day 19894) (date_of_day 19894)) shop) =
       Some [\<lparr>c_product_id = 4, c_rental_id = 8, c_reserved_date = 19884, c_status = Reserved\<rparr>,
        \<lparr>c_product_id = 4, c_rental_id = 8, c_reserved_date = 19885, c_status = Reserved\<rparr>]
   \<and> map_option fst (addRental paris
          (booking (date_of_day 19812) (date_of_day 19814)) shop) = Some (Inr 9)
   \<and> map_option (db_rental_calendar \<circ> snd) (addRental paris
          (booking (date_of_day 19812) (date_of_day 19814)) shop) =
       Some [\<lparr>c_product_id = 4, c_rental_id = 8, c_reserved_date = 19884, c_status = Reserved\<rparr>,
        \<lparr>c_product_id = 4, c_rental_id = 8, c_reserved_date = 19885, c_status = Reserved\<rparr>,
        \<lparr>c_product_id = 4, c_rental_id = 9, c_reserved_date = 19812, c_status = Reserved\<rparr>,
        \<lparr>c_product_id = 4, c_rental_id = 9, c_reserved_date = 19813, c_status = Reserved\<rparr>,
        \<lparr>c_product_id = 4, c_rental_id = 9, c_reserved_date = 19813, c_status = Reserved\<rparr>]"
  by code_simp

text \<open>
  Claim C2, amended. In a time zone whose local days from start to end last 24 hours (a
  zone of fixed offset, or no change of offset between the two dates), a call of
  \<^verbatim>\<open>addRental\<close> returns; and for every successful call with start not after end, whose
  calendar insert succeeds and whose start is not later in its UTC day than its end is in
  its own, the rows added to the calendar are one row with status reserved and the new
  rental's id for each UTC day from the day of start to the day of end, in order: for each
  such day exactly one, and a single row when start equals end. The new id is the one the
  database gave to the rental row.
\<close>

theorem addRental_days:
  "(\<forall>t. rentalStartDate rd \<le> t \<and> t \<le> rentalEndDate rd
         \<longrightarrow> next_local_day e t = t + ms_per_day)
   \<longrightarrow> addRental e rd w \<noteq> None
     \<and> (addRental e rd w = Some (Inr newId, w') \<and> \<not> err_insert_calendar e
          \<and> rentalStartDate rd \<le> rentalEndDate rd
          \<and> rentalStartDate rd mod ms_per_day \<le> rentalEndDate rd mod ms_per_day
        \<longrightarrow> newId = db_next_id w
          \<and> db_rental_calendar w' =
              db_rental_calendar w @
              map (\<lambda>d. \<lparr>c_product_id = productId rd, c_rental_id = newId,
                         c_reserved_date = d, c_status = Reserved\<rparr>)
                [iso_day (rentalStartDate rd) .. iso_day (rentalEndDate rd)]
          \<and> (\<forall>d. iso_day (rentalStartDate rd) \<le> d \<and> d \<le> iso_day (rentalEndDate rd)
                \<longrightarrow> length (filter (\<lambda>row. c_rental_id row = newId \<and> c_status row = Reserved
                                       \<and> c_reserved_date row = d)
                       (drop (length (db_rental_calendar w)) (db_rental_calendar w'))) = 1)
          \<and> (rentalStartDate rd = rentalEndDate rd
                \<longrightarrow> drop (length (db_rental_calendar w)) (db_rental_calendar w') =
                    [\<lparr>c_product_id = productId rd, c_rental_id = newId,
                      c_reserved_date = iso_day (rentalStartDate rd), c_status = Reserved\<rparr>]))"
proof (rule impI)
  assume zone: "\<forall>t. rentalStartDate rd \<le> t \<and> t \<le> rentalEndDate rd
                  \<longrightarrow> next_local_day e t = t + ms_per_day"
  note loop = rental_dates_days [OF zone]
  have returns: "addRental e rd w \<noteq> None"
    by (rule addRental_returns) (simp add: loop)
  have days: "newId = db_next_id w
          \<and> db_rental_calendar w' =
              db_rental_calendar w @
              map (\<lambda>d. \<lparr>c_product_id = productId rd, c_rental_id = newId,
                         c_reserved_date = d, c_status = Reserved\<rparr>)
                [iso_day (rentalStartDate rd) .. iso_day (rentalEndDate rd)]
          \<and> (\<forall>d. iso_day (rentalStartDate rd) \<le> d \<and> d \<le> iso_day (rentalEndDate rd)
                \<longrightarrow> length (filter (\<lambda>row. c_rental_id row = newId \<and> c_status row = Reserved
                                       \<and> c_reserved_date row = d)
                       (drop (length (db_rental_calendar w)) (db_rental_calendar w'))) = 1)
          \<and> (rentalStartDate rd = rentalEndDate rd
                \<longrightarrow> drop (length (db_rental_calendar w)) (db_rental_calendar w') =
                    [\<lparr>c_product_id = productId rd, c_rental_id = newId,
                      c_reserved_date = iso_day (rentalStartDate rd), c_status = Reserved\<rparr>])"
    if ok: "addRental e rd w = Some (Inr newId, w')" and cal: "\<not> err_insert_calendar e"
      and tod: "rentalStartDate rd mod ms_per_day \<le> rentalEndDate rd mod ms_per_day"
  proof -
    let ?row = "\<lambda>d. \<lparr>c_product_id = productId rd, c_rental_id = newId,
                      c_reserved_date = d, c_status = Reserved\<rparr>"
    let ?days = "[iso_day (rentalStartDate rd) .. iso_day (rentalEndDate rd)]"
    note * = addRental_Inr [OF ok]
    have new: "newId = db_next_id w" by (rule *(3))
    have rows: "db_rental_calendar w' = db_rental_calendar w @ map ?row ?days"
      using *(4) cal by (simp add: loop last_day [OF tod])
    have created: "drop (length (db_rental_calendar w)) (db_rental_calendar w')
                   = map ?row ?days"
      by (simp add: rows)
    have each: "\<forall>d. iso_day (rentalStartDate rd) \<le> d \<and> d \<le> iso_day (rentalEndDate rd)
           \<longrightarrow> length (filter (\<lambda>row. c_rental_id row = newId \<and> c_status row = Reserved
                                  \<and> c_reserved_date row = d)
                  (drop (length (db_rental_calendar w)) (db_rental_calendar w'))) = 1"
      by (simp only: created) (intro allI impI, elim conjE, rule one_per_day)
    have single: "rentalStartDate rd = rentalEndDate rd
           \<longrightarrow> drop (length (db_rental_calendar w)) (db_rental_calendar w') =
               [?row (iso_day (rentalStartDate rd))]"
      by (simp add: created)
    show ?thesis
      by (rule conjI [OF new conjI [OF rows conjI [OF each single]]])
  qed
  show "addRental e rd w \<noteq> None
     \<and> (addRental e rd w = Some (Inr newId, w') \<and> \<not> err_insert_calendar e
          \<and> rentalStartDate rd \<le> rentalEndDate rd
          \<and> rentalStartDate rd mod ms_per_day \<le> rentalEndDate rd mod ms_per_day
        \<longrightarrow> newId = db_next_id w
          \<and> db_rental_calendar w' =
              db_rental_calendar w @
              map (\<lambda>d. \<lparr>c_product_id = productId rd, c_rental_id = newId,
                         c_reserved_date = d, c_status = Reserved\<rparr>)
                [iso_day (rentalStartDate rd) .. iso_day (rentalEndDate rd)]
          \<and> (\<forall>d. iso_day (rentalStartDate rd) \<le> d \<and> d \<le> iso_day (rentalEndDate rd)
                \<longrightarrow> length (filter (\<lambda>row. c_rental_id row = newId \<and> c_status row = Reserved
                                       \<and> c_reserved_date row = d)
                       (drop (length (db_rental_calendar w)) (db_rental_calendar w'))) = 1)
          \<and> (rentalStartDate rd = rentalEndDate rd
                \<longrightarrow> drop (length (db_rental_calendar w)) (db_rental_calendar w') =
                    [\<lparr>c_product_id = productId rd, c_rental_id = newId,
                      c_reserved_date = iso_day (rentalStartDate rd), c_status = Reserved\<rparr>]))"
  proof (rule conjI [OF returns], rule impI, elim conjE)
    assume "addRental e rd w = Some (Inr newId, w')" "\<not> err_insert_calendar e"
      "rentalStartDate rd mod ms_per_day \<le> rentalEndDate rd mod ms_per_day"
    then show "newId = db_next_id w
          \<and> db_rental_calendar w' =
              db_rental_calendar w @
              map (\<lambda>d. \<lparr>c_product_id = productId rd, c_rental_id = newId,
                         c_reserved_date = d, c_status = Reserved\<rparr>)
                [iso_day (rentalStartDate rd) .. iso_day (rentalEndDate rd)]
          \<and> (\<forall>d. iso_day (rentalStartDate rd) \<le> d \<and> d \<le> iso_day (rentalEndDate rd)
                \<longrightarrow> length (filter (\<lambda>row. c_rental_id row = newId \<and> c_status row = Reserved
                                       \<and> c_reserved_date row = d)
                       (drop (length (db_rental_calendar w)) (db_rental_calendar w'))) = 1)
          \<and> (rentalStartDate rd = rentalEndDate rd
                \<longrightarrow> drop (length (db_rental_calendar w)) (db_rental_calendar w') =
                    [\<lparr>c_product_id = productId rd, c_rental_id = newId,
                      c_reserved_date = iso_day (rentalStartDate rd), c_status = Reserved\<rparr>])"
      by (rule days)
  qed
qed

theorem addRental_days_witness:
  "addRental (calm 0) (booking (date_of_day 19894) (date_of_day 19896)) shop \<noteq> None
   \<and> next_local_day (calm 0) (date_of_day 19894) = date_of_day 19894 + ms_per_day
   \<and> map_option fst (addRental (calm 0) (booking (date_of_day 19894) (date_of_day 19896)) shop)
       = Some (Inr 9)
   \<and> \<not> err_insert_calendar (calm 0)
   \<and> rentalStartDate (booking (date_of_day 19894) (date_of_day 19896))
       \<le> rentalEndDate (booking (date_of_day 19894) (date_of_day 19896))
   \<and> rentalStartDate (booking (date_of_day 19894) (date_of_day 19896)) mod ms_per_day
       \<le> rentalEndDate (booking (date_of_day 19894) (date_of_day 19896)) mod ms_per_day
   \<and> map_option (db_rental_calendar \<circ> snd)
        (addRental (calm 0) (booking (date_of_day 19894) (date_of_day 19896)) shop) =
       Some [\<lparr>c_product_id = 4, c_rental_id = 8, c_reserved_date = 19884, c_status = Reserved\<rparr>,
        \<lparr>c_product_id = 4, c_rental_id = 8, c_reserved_date = 19885, c_status = Reserved\<rparr>,
        \<lparr>c_product_id = 4, c_rental_id = 9, c_reserved_date = 19894, c_status = Reserved\<rparr>,
        \<lparr>c_product_id = 4, c_rental_id = 9, c_reserved_date = 19895, c_status = Reserved\<rparr>,
        \<lparr>c_product_id = 4, c_rental_id = 9, c_reserved_date = 19896, c_status = Reserved\<rparr>]
   \<and> rentalStartDate (booking (date_of_day 19894) (date_of_day 19894))
       = rentalEndDate (booking (date_of_day 19894) (date_of_day 19894))
   \<and> map_option (drop (length (db_rental_calendar shop)) \<circ> db_rental_calendar \<circ> snd)
        (addRental (calm 0) (booking (date_of_day 19894) (date_of_day 19894)) shop) =
       Some [\<lparr>c_product_id = 4, c_rental_id = 9, c_reserved_date = 19894, c_status = Reserved\<rparr>]"
proof -
  let ?b = "booking (date_of_day 19894) (date_of_day 19896)"
  let ?c = "booking (date_of_day 19894) (date_of_day 19894)"
  have zone: "\<forall>t. rentalStartDate rd \<le> t \<and> t \<le> rentalEndDate rd
                  \<longrightarrow> next_local_day (calm 0) t = t + ms_per_day" for rd
    by (simp add: calm_step)
  have h: "rentalStartDate ?b \<le> rentalEndDate ?b"
    "rentalStartDate ?b mod ms_per_day \<le> rentalEndDate ?b mod ms_per_day"
    "rentalStartDate ?c \<le> rentalEndDate ?c"
    "rentalStartDate ?c mod ms_per_day \<le> rentalEndDate ?c mod ms_per_day"
    by (simp_all add: booking_fields date_of_day_def ms_per_day_def)
  have ids: "map_option fst (addRental (calm 0) ?b shop) = Some (Inr 9)"
    "map_option fst (addRental (calm 0) ?c shop) = Some (Inr 9)"
    by code_simp+
  have returns: "addRental (calm 0) ?b shop \<noteq> None"
    by (rule addRental_days [where e = "calm 0" and rd = ?b and w = shop and newId = 9
          and w' = shop, THEN mp, OF zone, THEN conjunct1])
  from ids(1) obtain wb where b: "addRental (calm 0) ?b shop = Some (Inr 9, wb)"
    by (cases "addRental (calm 0) ?b shop") auto
  from ids(2) obtain wc where c: "addRental (calm 0) ?c shop = Some (Inr 9, wc)"
    by (cases "addRental (calm 0) ?c shop") auto
  note rows_b = addRental_days [where e = "calm 0" and rd = ?b and w = shop and newId = 9
      and w' = wb, THEN mp, OF zone, THEN conjunct2, THEN mp,
      OF conjI [OF b conjI [OF calm_ok(6) conjI [OF h(1,2)]]]]
  note rows_c = addRental_days [where e = "calm 0" and rd = ?c and w = shop and newId = 9
      and w' = wc, THEN mp, OF zone, THEN conjunct2, THEN mp,
      OF conjI [OF c conjI [OF calm_ok(6) conjI [OF h(3,4)]]]]
  have days: "[19894 .. 19896 :: int] = [19894, 19895, 19896]" by (simp add: upto_rec1)
  have cal_b: "db_rental_calendar wb =
       [\<lparr>c_product_id = 4, c_rental_id = 8, c_reserved_date = 19884, c_status = Reserved\<rparr>,
        \<lparr>c_product_id = 4, c_rental_id = 8, c_reserved_date = 19885, c_status = Reserved\<rparr>,
        \<lparr>c_product_id = 4, c_rental_id = 9, c_reserved_date = 19894, c_status = Reserved\<rparr>,
        \<lparr>c_product_id = 4, c_rental_id = 9, c_reserved_date = 19895, c_status = Reserved\<rparr>,
        \<lparr>c_product_id = 4, c_rental_id = 9, c_reserved_date = 19896, c_status = Reserved\<rparr>]"
    using rows_b [THEN conjunct2, THEN conjunct1]
    by (simp add: booking_fields iso_day_midnight days shop_lists shop_db_def)
  have cal_c: "drop (length (db_rental_calendar shop)) (db_rental_calendar wc) =
       [\<lparr>c_product_id = 4, c_rental_id = 9, c_reserved_date = 19894, c_status = Reserved\<rparr>]"
    using rows_c [THEN conjunct2, THEN conjunct2, THEN conjunct2]
    by (simp add: booking_fields iso_day_midnight)
  show ?thesis
    using returns cal_b cal_c h(1,2)
    by (simp add: b c calm_ok calm_step booking_fields)
qed

section \<open>Releasing a rental\<close>

lemma updateRentalStatus_calendar:
  assumes "\<not> err_update_rental e"
  shows "fst (updateRentalStatus e rid st t w) = Inr ()"
    and "db_rental_calendar (snd (updateRentalStatus e rid st t w)) =
          (if st = Returned \<and> \<not> err_update_calendar e
           then update_where (\<lambda>row. c_rental_id row = rid)
                  (\<lambda>row. row\<lparr>c_status := Available\<rparr>) (db_rental_calendar w)
           else db_rental_calendar w)"
    and "db_rentals (snd (updateRentalStatus e rid st t w)) =
          update_where (\<lambda>row. r_id row = rid)
            (\<lambda>row. case t of None \<Rightarrow> row\<lparr>r_status := st\<rparr>
                             | Some d \<Rightarrow> row\<lparr>r_status := st, r_returned_at := Some d\<rparr>)
            (db_rentals w)"
  using assms by (simp_all add: updateRentalStatus_def Let_def loadRentals_def)

lemma updateRentalStatus_failed:
  assumes "err_update_rental e"
  shows "updateRentalStatus e rid st t w = (Inl StoreError, w)"
  using assms by (simp add: updateRentalStatus_def)

lemma release_idem:
  "update_where (\<lambda>row. c_rental_id row = rid) (\<lambda>row. row\<lparr>c_status := Available\<rparr>)
     (update_where (\<lambda>row. c_rental_id row = rid) (\<lambda>row. row\<lparr>c_status := Available\<rparr>) rows)
   = update_where (\<lambda>row. c_rental_id row = rid) (\<lambda>row. row\<lparr>c_status := Available\<rparr>) rows"
  by (rule update_where_idem) simp_all

lemma released_rows:
  assumes "row \<in> set (update_where (\<lambda>row. c_rental_id row = rid)
                         (\<lambda>row. row\<lparr>c_status := Available\<rparr>) rows)"
    and "c_rental_id row = rid"
  shows "c_status row = Available"
proof -
  from update_where_hit [OF assms(1)] assms(2)
  obtain old where "row = old\<lparr>c_status := Available\<rparr>" by auto
  then show ?thesis by simp
qed

text \<open>
  Claim C5 says that a transition to returned or to cancelled flips the calendar rows of
  the rental to available. The rental of the shop is cancelled: the call returns normally,
  the rental row is cancelled and both calendar rows stay reserved. The rental is returned
  while the calendar update comes back with an error: the call returns normally and
  both calendar rows stay reserved.
\<close>

theorem release_counterexample:
  "fst (updateRentalStatus (calm 0) 8 Cancelled None shop) = Inr ()
   \<and> map r_status (db_rentals (snd (updateRentalStatus (calm 0) 8 Cancelled None shop)))
       = [Cancelled]
   \<and> db_rental_calendar (snd (updateRentalStatus (calm 0) 8 Cancelled None shop)) =
       [\<lparr>c_product_id = 4, c_rental_id = 8, c_reserved_date = 19884, c_status = Reserved\<rparr>,
        \<lparr>c_product_id = 4, c_rental_id = 8, c_reserved_date = 19885, c_status = Reserved\<rparr>]
   \<and> fst (updateRentalStatus ((calm 0)\<lparr>err_update_calendar := True\<rparr>) 8 Returned None shop)
       = Inr ()
   \<and> db_rental_calendar
        (snd (updateRentalStatus ((calm 0)\<lparr>err_update_calendar := True\<rparr>) 8 Returned None shop)) =
       [\<lparr>c_product_id = 4, c_rental_id = 8, c_reserved_date = 19884, c_status = Reserved\<rparr>,
        \<lparr>c_product_id = 4, c_rental_id = 8, c_reserved_date = 19885, c_status = Reserved\<rparr>]"
proof -
  have ok: "\<not> err_update_rental ((calm 0)\<lparr>err_update_calendar := True\<rparr>)"
    "err_update_calendar ((calm 0)\<lparr>err_update_calendar := True\<rparr>)"
    by (simp_all add: calm_def)
  show ?thesis
    by (simp add: updateRentalStatus_calendar [OF calm_ok(2)] updateRentalStatus_calendar [OF ok(1)]
        ok(2) shop_lists shop_db_def update_where_def)
qed

text \<open>
  Claim C5, amended. A transition of a rental to returned whose two store updates succeed
  flips every calendar row of that rental to available and leaves the rows of the other
  rentals as they were; a second transition to returned, whatever the store does then,
  leaves the calendar as the first left it.
\<close>

theorem release_on_return:
  "\<not> err_update_rental e \<and> \<not> err_update_calendar e
   \<longrightarrow> fst (updateRentalStatus e rid Returned t w) = Inr ()
     \<and> db_rental_calendar (snd (updateRentalStatus e rid Returned t w)) =
         map (\<lambda>row. if c_rental_id row = rid then row\<lparr>c_status := Available\<rparr> else row)
           (db_rental_calendar w)
     \<and> (\<forall>row \<in> set (db_rental_calendar (snd (updateRentalStatus e rid Returned t w))).
           c_rental_id row = rid \<longrightarrow> c_status row = Available)
     \<and> db_rental_calendar
          (snd (updateRentalStatus e' rid Returned t' (snd (updateRentalStatus e rid Returned t w))))
        = db_rental_calendar (snd (updateRentalStatus e rid Returned t w))"
proof (rule impI, elim conjE)
  assume r: "\<not> err_update_rental e" and c: "\<not> err_update_calendar e"
  let ?w = "snd (updateRentalStatus e rid Returned t w)"
  have cal: "db_rental_calendar ?w =
               update_where (\<lambda>row. c_rental_id row = rid)
                 (\<lambda>row. row\<lparr>c_status := Available\<rparr>) (db_rental_calendar w)"
    using c by (simp add: updateRentalStatus_calendar(2) [OF r])
  have a: "fst (updateRentalStatus e rid Returned t w) = Inr ()"
    by (rule updateRentalStatus_calendar(1) [OF r])
  have b: "db_rental_calendar ?w =
         map (\<lambda>row. if c_rental_id row = rid then row\<lparr>c_status := Available\<rparr> else row)
           (db_rental_calendar w)"
    by (simp add: cal update_where_def)
  have d: "\<forall>row \<in> set (db_rental_calendar ?w). c_rental_id row = rid \<longrightarrow> c_status row = Available"
    by (simp only: cal) (intro ballI impI, rule released_rows)
  have again: "db_rental_calendar (snd (updateRentalStatus e' rid Returned t' ?w))
               = db_rental_calendar ?w"
  proof (cases "err_update_rental e'")
    case True
    then show ?thesis by (simp add: updateRentalStatus_failed)
  next
    case False
    show ?thesis
      by (simp add: updateRentalStatus_calendar(2) [OF False] cal release_idem)
  qed
  show "fst (updateRentalStatus e rid Returned t w) = Inr ()
     \<and> db_rental_calendar ?w =
         map (\<lambda>row. if c_rental_id row = rid then row\<lparr>c_status := Available\<rparr> else row)
           (db_rental_calendar w)
     \<and> (\<forall>row \<in> set (db_rental_calendar ?w). c_rental_id row = rid \<longrightarrow> c_status row = Available)
     \<and> db_rental_calendar (snd (updateRentalStatus e' rid Returned t' ?w))
        = db_rental_calendar ?w"
    by (rule conjI [OF a conjI [OF b conjI [OF d again]]])
qed

theorem release_on_return_witness:
  "\<not> err_update_rental (calm 0) \<and> \<not> err_update_calendar (calm 0)
   \<and> fst (updateRentalStatus (calm 0) 8 Returned (Some 5) shop) = Inr ()
   \<and> db_rental_calendar (snd (updateRentalStatus (calm 0) 8 Returned (Some 5) shop)) =
       [\<lparr>c_product_id = 4, c_rental_id = 8, c_reserved_date = 19884, c_status = Available\<rparr>,
        \<lparr>c_product_id = 4, c_rental_id = 8, c_reserved_date = 19885, c_status = Available\<rparr>]
   \<and> db_rental_calendar
        (snd (updateRentalStatus (calm 0) 8 Returned (Some 6)
           (snd (updateRentalStatus (calm 0) 8 Returned (Some 5) shop)))) =
       [\<lparr>c_product_id = 4, c_rental_id = 8, c_reserved_date = 19884, c_status = Available\<rparr>,
        \<lparr>c_product_id = 4, c_rental_id = 8, c_reserved_date = 19885, c_status = Available\<rparr>]"
  using release_on_return [where e = "calm 0" and rid = 8 and t = "Some 5" and w = shop
      and e' = "calm 0" and t' = "Some 6"] calm_ok(2,4)
  by (simp add: shop_lists shop_db_def)

section \<open>Two rentals of the same days\<close>

text \<open>The four steps of one call, with no step of another call between them, are the
  call.\<close>

lemma rental_steps_are_addRental:
  "interleave e [False, False, False, False] (AwaitCheck rd, other, w)
   = map_option (\<lambda>(r, w'). (Settled r, other, w')) (addRental e rd w)"
  by (simp add: addRental_def Let_def insert_rental_def split: option.splits)

text \<open>
  Claim C9 says that of two calls of \<^verbatim>\<open>addRental\<close> for overlapping days of one product that
  run concurrently at most one succeeds. Two calls for the product of the shop and the
  single day 2024-06-20 take their steps in turn, so that both availability selects run
  before either insert: both calls return an id, 9 and 10, and the calendar holds two
  reserved rows for the product on that day. And in the zone of Paris two calls one after
  the other, for 2024-10-26 to 2024-10-28 and for 2024-10-28, all at midnight UTC, both
  return an id: the first leaves no row for the 28th, the day after the clocks go back.
\<close>

theorem concurrent_rentals_counterexample:
  "map_option fst (interleave (calm 0) [False, True, False, True, False, True, False, True]
          (AwaitCheck (booking (date_of_day 19894) (date_of_day 19894)),
           AwaitCheck (booking (date_of_day 19894) (date_of_day 19894)), shop))
     = Some (Settled (Inr 9))
   \<and> map_option (fst \<circ> snd)
        (interleave (calm 0) [False, True, False, True, False, True, False, True]
          (AwaitCheck (booking (date_of_day 19894) (date_of_day 19894)),
           AwaitCheck (booking (date_of_day 19894) (date_of_day 19894)), shop))
     = Some (Settled (Inr 10))
   \<and> map_option (db_rental_calendar \<circ> snd \<circ> snd)
        (interleave (calm 0) [False, True, False, True, False, True, False, True]
          (AwaitCheck (booking (date_of_day 19894) (date_of_day 19894)),
           AwaitCheck (booking (date_of_day 19894) (date_of_day 19894)), shop)) =
       Some [\<lparr>c_product_id = 4, c_rental_id = 8, c_reserved_date = 19884, c_status = Reserved\<rparr>,
        \<lparr>c_product_id = 4, c_rental_id = 8, c_reserved_date = 19885, c_status = Reserved\<rparr>,
        \<lparr>c_product_id = 4, c_rental_id = 9, c_reserved_date = 19894, c_status = Reserved\<rparr>,
        \<lparr>c_product_id = 4, c_rental_id = 10, c_reserved_date = 19894, c_status = Reserved\<rparr>]
   \<and> map_option (map r_id \<circ> db_rentals \<circ> snd \<circ> snd)
        (interleave (calm 0) [False, True, False, True, False, True, False, True]
          (AwaitCheck (booking (date_of_day 19894) (date_of_day 19894)),
           AwaitCheck (booking (date_of_day 19894) (date_of_day 19894)), shop))
     = Some [8, 9, 10]
   \<and> map_option fst (two_rentals paris (booking (date_of_day 20022) (date_of_day 20024))
          (booking (date_of_day 20024) (date_of_day 20024)) shop) = Some (Inr 9)
   \<and> map_option (fst \<circ> snd)
        (two_rentals paris (booking (date_of_day 20022) (date_of_day 20024))
          (booking (date_of_day 20024) (date_of_day 20024)) shop) = Some (Inr 10)
   \<and> map_option (db_rental_calendar \<circ> snd \<circ> snd)
        (two_rentals paris (booking (date_of_day 20022) (date_of_day 20024))
          (booking (date_of_day 20024) (date_of_day 20024)) shop) =
       Some [\<lparr>c_product_id = 4, c_rental_id = 8, c_reserved_date = 19884, c_status = Reserved\<rparr>,
        \<lparr>c_product_id = 4, c_rental_id = 8, c_reserved_date = 19885, c_status = Reserved\<rparr>,
        \<lparr>c_product_id = 4, c_rental_id = 9, c_reserved_date = 20022, c_status = Reserved\<rparr>,
        \<lparr>c_product_id = 4, c_rental_id = 9, c_reserved_date = 20023, c_status = Reserved\<rparr>,
        \<lparr>c_product_id = 4, c_rental_id = 10, c_reserved_date = 20024, c_status = Reserved\<rparr>]"
  by code_simp

text \<open>
  Claim C9, amended. Of two calls of \<^verbatim>\<open>addRental\<close> for the same product whose ranges share a
  UTC day, made one after the other, at most one succeeds, provided that the local days
  from start to end of the first last 24 hours in its time zone (a zone of fixed offset,
  or no change of offset between the two dates), that the calendar insert of the first
  succeeded and that the start of the first is not later in its UTC day than its end: if
  the first returned an id, the second returns with the error of an unavailable product
  and writes nothing. The availability select and the inserts are separate store calls,
  with no transaction and no lock between them.
\<close>

theorem sequential_rentals:
  "(\<forall>t. rentalStartDate rd1 \<le> t \<and> t \<le> rentalEndDate rd1
         \<longrightarrow> next_local_day e1 t = t + ms_per_day)
     \<and> addRental e1 rd1 w = Some (Inr id1, w1) \<and> \<not> err_insert_calendar e1
     \<and> rentalStartDate rd1 mod ms_per_day \<le> rentalEndDate rd1 mod ms_per_day
     \<and> productId rd2 = productId rd1
     \<and> iso_day (rentalStartDate rd1) \<le> d \<and> d \<le> iso_day (rentalEndDate rd1)
     \<and> iso_day (rentalStartDate rd2) \<le> d \<and> d \<le> iso_day (rentalEndDate rd2)
   \<longrightarrow> addRental e2 rd2 w1 = Some (Inl Conflict, w1)"
proof (rule impI, elim conjE)
  assume zone: "\<forall>t. rentalStartDate rd1 \<le> t \<and> t \<le> rentalEndDate rd1
                  \<longrightarrow> next_local_day e1 t = t + ms_per_day"
    and ok: "addRental e1 rd1 w = Some (Inr id1, w1)" and cal: "\<not> err_insert_calendar e1"
    and tod: "rentalStartDate rd1 mod ms_per_day \<le> rentalEndDate rd1 mod ms_per_day"
    and same: "productId rd2 = productId rd1"
    and d1: "iso_day (rentalStartDate rd1) \<le> d" "d \<le> iso_day (rentalEndDate rd1)"
    and d2: "iso_day (rentalStartDate rd2) \<le> d" "d \<le> iso_day (rentalEndDate rd2)"
  let ?row = "\<lparr>c_product_id = productId rd1, c_rental_id = id1,
               c_reserved_date = d, c_status = Reserved\<rparr>"
  note * = addRental_Inr [OF ok]
  have "db_rental_calendar w1 = db_rental_calendar w @
          map (\<lambda>d. \<lparr>c_product_id = productId rd1, c_rental_id = id1,
                     c_reserved_date = d, c_status = Reserved\<rparr>)
            [iso_day (rentalStartDate rd1) .. iso_day (rentalEndDate rd1)]"
    using *(4) cal by (simp add: rental_dates_days [OF zone] last_day [OF tod])
  with d1 have mem: "?row \<in> set (db_rental_calendar w1)" by simp
  have "\<not> checkProductAvailability e2 (productId rd2)
            (rentalStartDate rd2) (rentalEndDate rd2) w1"
    by (rule check_blocked [OF mem]) (simp_all add: same d2)
  then show "addRental e2 rd2 w1 = Some (Inl Conflict, w1)"
    by (rule addRental_blocked)
qed

theorem sequential_rentals_witness:
  "next_local_day (calm 0) (date_of_day 19894) = date_of_day 19894 + ms_per_day
   \<and> map_option fst (addRental (calm 0) (booking (date_of_day 19894) (date_of_day 19896)) shop)
       = Some (Inr 9)
   \<and> \<not> err_insert_calendar (calm 0)
   \<and> rentalStartDate (booking (date_of_day 19894) (date_of_day 19896)) mod ms_per_day
       \<le> rentalEndDate (booking (date_of_day 19894) (date_of_day 19896)) mod ms_per_day
   \<and> productId (booking (date_of_day 19896) (date_of_day 19899))
       = productId (booking (date_of_day 19894) (date_of_day 19896))
   \<and> iso_day (rentalStartDate (booking (date_of_day 19894) (date_of_day 19896))) \<le> 19896
   \<and> 19896 \<le> iso_day (rentalEndDate (booking (date_of_day 19894) (date_of_day 19896)))
   \<and> iso_day (rentalStartDate (booking (date_of_day 19896) (date_of_day 19899))) \<le> 19896
   \<and> 19896 \<le> iso_day (rentalEndDate (booking (date_of_day 19896) (date_of_day 19899)))
   \<and> map_option (fst \<circ> snd)
        (two_rentals (calm 0) (booking (date_of_day 19894) (date_of_day 19896))
           (booking (date_of_day 19896) (date_of_day 19899)) shop)
       = Some (Inl Conflict)"
proof -
  let ?b = "booking (date_of_day 19894) (date_of_day 19896)"
  let ?c = "booking (date_of_day 19896) (date_of_day 19899)"
  have zone: "\<forall>t. rentalStartDate ?b \<le> t \<and> t \<le> rentalEndDate ?b
                  \<longrightarrow> next_local_day (calm 0) t = t + ms_per_day"
    by (simp add: calm_step)
  have id: "map_option fst (addRental (calm 0) ?b shop) = Some (Inr 9)"
    by code_simp
  then obtain wb where b: "addRental (calm 0) ?b shop = Some (Inr 9, wb)"
    by (cases "addRental (calm 0) ?b shop") auto
  have h: "rentalStartDate ?b mod ms_per_day \<le> rentalEndDate ?b mod ms_per_day"
    by (simp add: booking_fields date_of_day_def ms_per_day_def)
  have days: "productId ?c = productId ?b"
    "iso_day (rentalStartDate ?b) \<le> 19896" "19896 \<le> iso_day (rentalEndDate ?b)"
    "iso_day (rentalStartDate ?c) \<le> 19896" "19896 \<le> iso_day (rentalEndDate ?c)"
    by (simp_all add: booking_fields iso_day_midnight)
  have second: "addRental (calm 0) ?c wb = Some (Inl Conflict, wb)"
    by (rule sequential_rentals [where ?e1.0 = "calm 0" and ?rd1.0 = ?b and w = shop
          and ?id1.0 = 9 and ?w1.0 = wb and ?rd2.0 = ?c and d = 19896 and ?e2.0 = "calm 0",
          THEN mp,
          OF conjI [OF zone conjI [OF b conjI [OF calm_ok(6) conjI [OF h conjI [OF days(1)
            conjI [OF days(2) conjI [OF days(3) conjI [OF days(4) days(5)]]]]]]]]])
  show ?thesis
    using id h days
    by (simp add: two_rentals_def b second calm_ok calm_step)
qed

section \<open>Availability when the store fails\<close>

text \<open>The month of June 2024 for the product of the shop, the store answering: the
  two days of the rental are reserved, the other 28 are available.\<close>

lemma june_availability:
  "map_option (length \<circ> availableDates)
     (getProductAvailability (calm 0) 4 (date_of_day 19884) shop) = Some 28"
  "map_option reservedDates (getProductAvailability (calm 0) 4 (date_of_day 19884) shop)
     = Some [date_of_day 19884, date_of_day 19885]"
  "map_option isAvailable (getProductAvailability (calm 0) 4 (date_of_day 19884) shop)
     = Some True"
  by code_simp+

text \<open>
  Claim C4 says that both availability reads fail open when the select fails. For the
  product of the shop and the free day 2024-06-20, \<^verbatim>\<open>checkProductAvailability\<close> returns
  true when the store answers and false when the select fails; and for June 2024
  \<^verbatim>\<open>getProductAvailability\<close> then lists no available day at all.
\<close>

theorem fail_open_counterexample:
  "checkProductAvailability (calm 0) 4 (date_of_day 19894) (date_of_day 19894) shop
   \<and> \<not> checkProductAvailability ((calm 0)\<lparr>err_select_calendar := True\<rparr>) 4
         (date_of_day 19894) (date_of_day 19894) shop
   \<and> map_option availableDates
         (getProductAvailability ((calm 0)\<lparr>err_select_calendar := True\<rparr>) 4
            (date_of_day 19884) shop) = Some []"
  by code_simp

text \<open>
  Claim C4, amended. When the select on the calendar fails, \<^verbatim>\<open>checkProductAvailability\<close>
  returns false, so that \<^verbatim>\<open>addRental\<close> throws the error of an unavailable product and
  writes nothing; \<^verbatim>\<open>getProductAvailability\<close> returns no available date, no reserved date
  and the flag \<^verbatim>\<open>isAvailable\<close> set.
\<close>

theorem availability_on_store_error:
  "err_select_calendar e
   \<longrightarrow> \<not> checkProductAvailability e pid s t w
     \<and> addRental e rd w = Some (Inl Conflict, w)
     \<and> getProductAvailability e pid month w =
         Some \<lparr>paProductId = pid, availableDates = [], reservedDates = [],
                isAvailable = True\<rparr>"
proof
  assume err: "err_select_calendar e"
  have a: "\<not> checkProductAvailability e pid s t w" for pid s t
    using err by (simp add: checkProductAvailability_def Let_def)
  have b: "addRental e rd w = Some (Inl Conflict, w)"
    by (rule addRental_blocked [OF a])
  have c: "getProductAvailability e pid month w =
         Some \<lparr>paProductId = pid, availableDates = [], reservedDates = [],
                isAvailable = True\<rparr>"
    using err by (simp add: getProductAvailability_def Let_def)
  show "\<not> checkProductAvailability e pid s t w
     \<and> addRental e rd w = Some (Inl Conflict, w)
     \<and> getProductAvailability e pid month w =
         Some \<lparr>paProductId = pid, availableDates = [], reservedDates = [],
                isAvailable = True\<rparr>"
    by (rule conjI [OF a conjI [OF b c]])
qed

theorem availability_on_store_error_witness:
  "err_select_calendar ((calm 0)\<lparr>err_select_calendar := True\<rparr>)
   \<and> \<not> checkProductAvailability ((calm 0)\<lparr>err_select_calendar := True\<rparr>) 4
         (date_of_day 19894) (date_of_day 19894) shop
   \<and> map_option fst (addRental ((calm 0)\<lparr>err_select_calendar := True\<rparr>)
        (booking (date_of_day 19894) (date_of_day 19894)) shop) = Some (Inl Conflict)
   \<and> map_option isAvailable
         (getProductAvailability ((calm 0)\<lparr>err_select_calendar := True\<rparr>) 4
            (date_of_day 19884) shop) = Some True"
proof -
  have "err_select_calendar ((calm 0)\<lparr>err_select_calendar := True\<rparr>)" by simp
  then show ?thesis
    using availability_on_store_error [where e = "(calm 0)\<lparr>err_select_calendar := True\<rparr>"
        and pid = 4 and s = "date_of_day 19894" and t = "date_of_day 19894" and w = shop
        and rd = "booking (date_of_day 19894) (date_of_day 19894)"
        and month = "date_of_day 19884"]
    by simp
qed

section \<open>Overdue rentals\<close>










end
